theory Spec2Isabelle
  imports Main
begin

section \<open>Status values\<close>

text \<open>
  \<open>absl::Status\<close> is either OK or an error with a code and a message; a
  \<open>absl::StatusOr<T>\<close> is an error or a value. A failed \<open>ZETASQL_RET_CHECK\<close> is an
  error with code \<open>kInternal\<close>; only the text streamed into it by the source is kept as
  its message.
\<close>

datatype StatusCode = kInternal | kUnimplemented | kResourceExhausted | kInvalidArgument

datatype error = Error (error_code: StatusCode) (error_message: string)

type_synonym Status = "error option"

abbreviation OkStatus :: Status where
  "OkStatus \<equiv> None"

definition RetCheckFailure :: "string \<Rightarrow> error" where
  "RetCheckFailure msg = Error kInternal msg"

section \<open>Rule identifiers, sequences and options\<close>

text \<open>
  The enumeration \<open>ResolvedASTRewrite\<close> is declared outside the files at hand; the
  driver names one of its members, \<open>REWRITE_ANONYMIZATION\<close>, and the spec names the
  rule of the NULLIFERROR rewriter. Every other member is \<open>REWRITE_OTHER n\<close>.
\<close>

datatype ResolvedASTRewrite =
    REWRITE_ANONYMIZATION
  | REWRITE_NULLIFERROR_FUNCTION
  | REWRITE_OTHER nat

text \<open>\<open>ResolvedASTRewrite_Name\<close>, the name of a member of the enumeration.\<close>

fun ResolvedASTRewrite_Name :: "ResolvedASTRewrite \<Rightarrow> string" where
  "ResolvedASTRewrite_Name REWRITE_ANONYMIZATION = ''REWRITE_ANONYMIZATION''"
| "ResolvedASTRewrite_Name REWRITE_NULLIFERROR_FUNCTION = ''REWRITE_NULLIFERROR_FUNCTION''"
| "ResolvedASTRewrite_Name (REWRITE_OTHER n) = ''REWRITE_OTHER''"

text \<open>
  Modelled from the spec: \<open>zetasql_base::SequenceNumber\<close> (its header is not among the
  sources) is the spec's column-id sequence, "a monotonically increasing 64-bit counter
  that hands out globally unique column ids". The state of a sequence is the value its
  next draw returns; \<open>GetNext\<close> returns that value and moves the counter up by one.
  The driver's fallback sequence starts at 0 and is advanced at most up to a 32-bit
  \<open>max_column_id\<close>, so the counter is an unbounded integer here.
\<close>

type_synonym SequenceNumber = int

definition GetNext :: "SequenceNumber \<Rightarrow> int \<times> SequenceNumber" where
  "GetNext s = (s, s + 1)"

text \<open>
  A \<open>SequenceNumber*\<close> held by the options points either at the sequence the caller
  owns or at the driver's local \<open>fallback_sequence_number\<close>; the two counters live in a
  store indexed by these pointers.
\<close>

datatype SequenceNumberPtr = ExternalSequence | FallbackSequence

type_synonym SequenceStore = "SequenceNumberPtr \<Rightarrow> SequenceNumber"

datatype NameResolutionMode = NAME_RESOLUTION_DEFAULT | NAME_RESOLUTION_STRICT

datatype LanguageFeature = FEATURE_V_1_4_WITH_EXPRESSION | FEATURE_OTHER nat

datatype ParameterMode = PARAMETER_NAMED | PARAMETER_POSITIONAL | PARAMETER_NONE

datatype StatementContext = CONTEXT_DEFAULT | CONTEXT_MODULE

datatype FieldsAccessedMode = LEGACY_FIELDS_ACCESSED_MODE | CLEAR_FIELDS

datatype ErrorMessageMode =
    ERROR_MESSAGE_WITH_PAYLOAD
  | ERROR_MESSAGE_ONE_LINE
  | ERROR_MESSAGE_MULTI_LINE_WITH_CARET

record LanguageOptions =
  name_resolution_mode :: NameResolutionMode
  enabled_language_features :: "LanguageFeature set"

text \<open>
  The settings of \<open>AnalyzerOptions\<close> that the driver and the options builder read or
  write. Arenas and the id-string pool are shared pointers, kept as opaque addresses.
\<close>

record AnalyzerSettings =
  language :: LanguageOptions
  allow_undeclared_parameters :: bool
  parameter_mode :: ParameterMode
  statement_context :: StatementContext
  arena :: "nat option"
  id_string_pool :: "nat option"
  expression_columns :: "(string \<times> string) list"
  column_id_sequence_number :: "SequenceNumberPtr option"
  enabled_rewrites :: "ResolvedASTRewrite set"
  error_message_mode :: ErrorMessageMode
  attach_error_location_payload :: bool
  fields_accessed_mode :: FieldsAccessedMode
  validate_resolved_ast :: bool
  allowed_hints_and_options :: "string list"

record AnalyzerOutputProperties =
  relevant_rewrites :: "ResolvedASTRewrite set"

text \<open>
  A \<open>TimedValue\<close> accumulates elapsed wall-clock time; the durations are outside the
  model, a timed value is the number of intervals accumulated into it. The count of a
  rule is a 64-bit integer that starts at 0 and moves by one per call, far from its
  bounds; it is an integer here.
\<close>

type_synonym TimedValue = nat

record RewriterDetails =
  count :: int
  timed_value :: TimedValue

record AnalyzerRuntimeInfo =
  rewriters_timed_value :: TimedValue
  rewriters_details :: "ResolvedASTRewrite \<Rightarrow> RewriterDetails"
  validator_timed_value :: TimedValue

text \<open>
  The analyzer output over trees of type \<open>'n\<close>. \<open>fields_marked_accessed\<close> stands for
  the access bookkeeping inside the nodes, which \<open>MarkFieldsAccessed\<close> sets on a tree
  that is otherwise constant.
\<close>

record 'n AnalyzerOutput =
  resolved_statement :: "'n option"
  resolved_expr :: "'n option"
  max_column_id :: int
  output_arena :: "nat option"
  output_id_string_pool :: "nat option"
  output_properties :: AnalyzerOutputProperties
  runtime_info :: AnalyzerRuntimeInfo
  fields_marked_accessed :: bool

text \<open>
  A rewriter: its name and its \<open>Rewrite\<close> operation. \<open>Rewrite\<close> reads the options,
  consumes the input tree, may draw from the column-id sequences through the pointer in
  the options and may change the output properties; catalog and type factory are part of
  the function.
\<close>

record 'n Rewriter =
  Name :: string
  Rewrite :: "AnalyzerSettings \<Rightarrow> 'n option \<Rightarrow> SequenceStore \<Rightarrow> AnalyzerOutputProperties
              \<Rightarrow> (error + 'n option) \<times> SequenceStore \<times> AnalyzerOutputProperties"

record 'n AnalyzerOptions = AnalyzerSettings +
  leading_rewriters :: "'n Rewriter list"
  trailing_rewriters :: "'n Rewriter list"
  pre_rewrite_callback :: "('n AnalyzerOutput \<Rightarrow> Status) option"

section \<open>AnalyzerOptionsForRewrite\<close>

definition NodeFromAnalyzerOutput :: "'n AnalyzerOutput \<Rightarrow> 'n option" where
  "NodeFromAnalyzerOutput output =
     (if resolved_statement output \<noteq> None then resolved_statement output
      else resolved_expr output)"

text \<open>
  The loop \<open>while (fallback_sequence_number.GetNext() < max_column_id) {}\<close>: it returns
  the value of the last draw together with the advanced sequence.
\<close>

function advance_sequence :: "SequenceNumber \<Rightarrow> int \<Rightarrow> int \<times> SequenceNumber" where
  "advance_sequence s m =
     (case GetNext s of (drawn, s') \<Rightarrow>
        if drawn < m then advance_sequence s' m else (drawn, s'))"
  by pat_completeness auto
termination
  by (relation "measure (\<lambda>(s, m). nat (m - s))") (auto simp: GetNext_def)

declare advance_sequence.simps [simp del]

definition AnalyzerOptionsForRewrite ::
  "('n, 'x) AnalyzerOptions_scheme \<Rightarrow> 'n AnalyzerOutput \<Rightarrow> SequenceNumber
   \<Rightarrow> ('n, 'x) AnalyzerOptions_scheme \<times> SequenceNumber" where
  "AnalyzerOptionsForRewrite analyzer_options analyzer_output fallback_sequence_number =
     (let options_for_rewrite = analyzer_options
            \<lparr> language := (language analyzer_options)
                 \<lparr> name_resolution_mode := NAME_RESOLUTION_STRICT,
                   enabled_language_features :=
                     insert FEATURE_V_1_4_WITH_EXPRESSION
                       (enabled_language_features (language analyzer_options)) \<rparr>,
              allow_undeclared_parameters := False,
              parameter_mode := PARAMETER_NAMED,
              statement_context := CONTEXT_DEFAULT,
              arena := output_arena analyzer_output,
              id_string_pool := output_id_string_pool analyzer_output,
              expression_columns := [] \<rparr>
      in if column_id_sequence_number analyzer_options = None
         then (options_for_rewrite \<lparr> column_id_sequence_number := Some FallbackSequence \<rparr>,
               snd (advance_sequence fallback_sequence_number (max_column_id analyzer_output)))
         else (options_for_rewrite, fallback_sequence_number))"

section \<open>The collaborators of the driver\<close>

text \<open>
  What the driver calls and the sources do not hold is a parameter of the model: the
  build mode and the flag, the relevance scanner, the registry, the validator and the
  error-location conversion. \<open>FindRelevantRewriters\<close> receives a pointer, which is null
  when no tree is at hand.
\<close>

record 'n Collaborators =
  ZETASQL_DEBUG_MODE :: bool
  FLAGS_zetasql_disable_rewriter_checker :: bool
  FindRelevantRewriters :: "'n option \<Rightarrow> error + ResolvedASTRewrite set"
  registration_order :: "ResolvedASTRewrite list"
  registry_Get :: "ResolvedASTRewrite \<Rightarrow> 'n Rewriter option"
  IsStatement :: "'n \<Rightarrow> bool"
  ValidateResolvedStatement :: "LanguageOptions \<Rightarrow> string list \<Rightarrow> 'n \<Rightarrow> Status"
  ValidateStandaloneResolvedExpr :: "LanguageOptions \<Rightarrow> string list \<Rightarrow> 'n \<Rightarrow> Status"
  ConvertInternalErrorLocationAndAdjustErrorString ::
    "ErrorMessageMode \<Rightarrow> bool \<Rightarrow> string \<Rightarrow> Status \<Rightarrow> Status"

section \<open>The output mutator\<close>

text \<open>
  Modelled from the spec: \<open>AnalyzerOutputMutator::release_output_node\<close> is not among
  the sources; the spec has it "transfer root ownership out". The root is the node
  \<open>NodeFromAnalyzerOutput\<close> reads, and the pointer it is moved out of is left null.
\<close>

definition release_output_node :: "'n AnalyzerOutput \<Rightarrow> 'n option \<times> 'n AnalyzerOutput" where
  "release_output_node output =
     (if resolved_statement output \<noteq> None
      then (resolved_statement output, output \<lparr> resolved_statement := None \<rparr>)
      else (resolved_expr output, output \<lparr> resolved_expr := None \<rparr>))"

text \<open>
  Modelled from the spec: \<open>AnalyzerOutputMutator::Update\<close> is not among the sources;
  the spec has \<open>update(new_root, new_max_column_id)\<close> "re-install root, update
  max_column_id", called with the column-id sequence; in the spec's scenario on
  column ids the final \<open>max_column_id\<close> "matches the sequence's last drawn value",
  which is one below the value the next draw returns. A statement goes to the
  statement slot and any other node to the expression slot; a null root cannot be
  installed.
\<close>

definition Update ::
  "('n \<Rightarrow> bool) \<Rightarrow> 'n option \<Rightarrow> SequenceNumber \<Rightarrow> 'n AnalyzerOutput \<Rightarrow> error + 'n AnalyzerOutput" where
  "Update is_statement node column_id_seq_num output =
     (case node of
        None \<Rightarrow> Inl (RetCheckFailure ''Update: no root to install'')
      | Some n \<Rightarrow>
          if is_statement n
          then Inr (output \<lparr> resolved_statement := Some n,
                             max_column_id := column_id_seq_num - 1 \<rparr>)
          else Inr (output \<lparr> resolved_expr := Some n,
                             max_column_id := column_id_seq_num - 1 \<rparr>))"

section \<open>The driver\<close>

text \<open>
  The calls of \<open>Rewriter::Rewrite\<close> the driver makes, in order: a built-in rewriter
  looked up under its rule, or a leading or trailing rewriter of the options.
\<close>

datatype RewriterCall = BuiltinRewrite ResolvedASTRewrite | UserRewrite string

text \<open>
  The state the driver works on: the analyzer output behind the mutator, the two
  column-id sequences, the locals \<open>options_for_rewrite\<close> and \<open>last_rewrite_result\<close>,
  and the calls made so far.
\<close>

record 'n DriverState =
  analyzer_output :: "'n AnalyzerOutput"
  sequences :: SequenceStore
  options_for_rewrite :: "'n AnalyzerOptions option"
  last_rewrite_result :: "'n option"
  rewriter_calls :: "RewriterCall list"

definition initial_state :: "SequenceStore \<Rightarrow> 'n AnalyzerOutput \<Rightarrow> 'n DriverState" where
  "initial_state seqs output =
     \<lparr> analyzer_output = output, sequences = seqs, options_for_rewrite = None,
       last_rewrite_result = None, rewriter_calls = [] \<rparr>"

definition map_runtime_info ::
  "(AnalyzerRuntimeInfo \<Rightarrow> AnalyzerRuntimeInfo) \<Rightarrow> 'n DriverState \<Rightarrow> 'n DriverState" where
  "map_runtime_info f st =
     st \<lparr> analyzer_output := (analyzer_output st)
            \<lparr> runtime_info := f (runtime_info (analyzer_output st)) \<rparr> \<rparr>"

text \<open>\<open>runtime_info.rewriters_timed_value().Accumulate(rewriter_timer)\<close>\<close>

definition accumulate_rewriter_timer :: "'n DriverState \<Rightarrow> 'n DriverState" where
  "accumulate_rewriter_timer =
     map_runtime_info (\<lambda>ri. ri \<lparr> rewriters_timed_value := rewriters_timed_value ri + 1 \<rparr>)"

text \<open>\<open>runtime_rewriter_details.count++\<close> on the details of one rule.\<close>

definition increment_count :: "ResolvedASTRewrite \<Rightarrow> 'n DriverState \<Rightarrow> 'n DriverState" where
  "increment_count r =
     map_runtime_info (\<lambda>ri. ri \<lparr> rewriters_details := (rewriters_details ri)
        (r := (rewriters_details ri r) \<lparr> count := count (rewriters_details ri r) + 1 \<rparr>) \<rparr>)"

text \<open>The scoped timer of one rule stops when its scope is left, on success and on error.\<close>

definition stop_details_timer :: "ResolvedASTRewrite \<Rightarrow> 'n DriverState \<Rightarrow> 'n DriverState" where
  "stop_details_timer r =
     map_runtime_info (\<lambda>ri. ri \<lparr> rewriters_details := (rewriters_details ri)
        (r := (rewriters_details ri r)
           \<lparr> timed_value := timed_value (rewriters_details ri r) + 1 \<rparr>) \<rparr>)"

definition stop_validator_timer :: "'n DriverState \<Rightarrow> 'n DriverState" where
  "stop_validator_timer =
     map_runtime_info (\<lambda>ri. ri \<lparr> validator_timed_value := validator_timed_value ri + 1 \<rparr>)"

text \<open>
  The lazy initialisation written before each call of a rewriter: when
  \<open>options_for_rewrite\<close> is null, build the options (advancing the fallback sequence)
  and release the root of the output into \<open>last_rewrite_result\<close>.
\<close>

definition ensure_options_for_rewrite ::
  "'n AnalyzerOptions \<Rightarrow> 'n DriverState \<Rightarrow> 'n AnalyzerOptions \<times> 'n DriverState" where
  "ensure_options_for_rewrite analyzer_options st =
     (case options_for_rewrite st of
        Some opts \<Rightarrow> (opts, st)
      | None \<Rightarrow>
          (case AnalyzerOptionsForRewrite analyzer_options (analyzer_output st)
                  (sequences st FallbackSequence) of
             (opts, fallback') \<Rightarrow>
               (case release_output_node (analyzer_output st) of
                  (node, output') \<Rightarrow>
                    (opts, st \<lparr> analyzer_output := output',
                                sequences := (sequences st)(FallbackSequence := fallback'),
                                options_for_rewrite := Some opts,
                                last_rewrite_result := node \<rparr>))))"

text \<open>
  One call \<open>rewriter->Rewrite(*options_for_rewrite, std::move(last_rewrite_result),
  *catalog, *type_factory, output_mutator.mutable_output_properties())\<close>: the tree is
  moved out of the slot, the rewriter works on the sequences and on the output
  properties, and the call is recorded.
\<close>

definition call_Rewrite ::
  "RewriterCall \<Rightarrow> 'n Rewriter \<Rightarrow> 'n AnalyzerOptions \<Rightarrow> 'n DriverState
   \<Rightarrow> (error + 'n option) \<times> 'n DriverState" where
  "call_Rewrite call rewriter opts st =
     (case Rewrite rewriter (AnalyzerSettings.truncate opts) (last_rewrite_result st)
             (sequences st) (output_properties (analyzer_output st)) of
        (result, seqs', props') \<Rightarrow>
          (result,
           st \<lparr> analyzer_output := (analyzer_output st) \<lparr> output_properties := props' \<rparr>,
                sequences := seqs',
                last_rewrite_result := None,
                rewriter_calls := rewriter_calls st @ [call] \<rparr>))"

text \<open>
  The two loops over \<open>leading_rewriters()\<close> and \<open>trailing_rewriters()\<close> have the same
  body: each rewriter runs once, in order, and an error returns at once.
\<close>

fun run_user_rewriters ::
  "'n AnalyzerOptions \<Rightarrow> 'n Rewriter list \<Rightarrow> 'n DriverState \<Rightarrow> Status \<times> 'n DriverState" where
  "run_user_rewriters analyzer_options [] st = (OkStatus, st)"
| "run_user_rewriters analyzer_options (rewriter # rest) st =
     (case ensure_options_for_rewrite analyzer_options st of
        (opts, st1) \<Rightarrow>
          (case call_Rewrite (UserRewrite (Name rewriter)) rewriter opts st1 of
             (Inl e, st2) \<Rightarrow> (Some e, st2)
           | (Inr node, st2) \<Rightarrow>
               run_user_rewriters analyzer_options rest (st2 \<lparr> last_rewrite_result := node \<rparr>)))"

text \<open>\<open>absl::StrCat\<close> of an integer: its decimal digits, with a sign when negative.\<close>

function decimal_digits :: "nat \<Rightarrow> string" where
  "decimal_digits n =
     (if n < 10 then [''0123456789'' ! n]
      else decimal_digits (n div 10) @ [''0123456789'' ! (n mod 10)])"
  by pat_completeness auto
termination
  by (relation "measure id") auto

declare decimal_digits.simps [simp del]

definition StrCat_int :: "int \<Rightarrow> string" where
  "StrCat_int i = (if i < 0 then ''-'' @ decimal_digits (nat (- i)) else decimal_digits (nat i))"

definition kMaxIterations :: int where
  "kMaxIterations = 25"

definition ResourceExhaustedError :: "string \<Rightarrow> error" where
  "ResourceExhaustedError msg = Error kResourceExhausted msg"

definition iteration_limit_error :: error where
  "iteration_limit_error =
     ResourceExhaustedError
       (''Query exceeded configured maximum number of rewriter iterations ('' @
        StrCat_int kMaxIterations @ '') without converging.'')"

text \<open>
  One sweep: the loop over \<open>registration_order()\<close> inside the \<open>do\<close> body. Rules not in
  \<open>rewrites_to_apply\<close> are skipped; for the others the registry is asked, the details
  of the rule are counted and timed, and the rewriter is called. A rewriter that is not
  registered, fails or returns null ends the driver.
\<close>

fun sweep ::
  "'n Collaborators \<Rightarrow> 'n AnalyzerOptions \<Rightarrow> ResolvedASTRewrite set \<Rightarrow> ResolvedASTRewrite list
   \<Rightarrow> 'n DriverState \<Rightarrow> Status \<times> 'n DriverState" where
  "sweep env analyzer_options rewrites_to_apply [] st = (OkStatus, st)"
| "sweep env analyzer_options rewrites_to_apply (ast_rewrite # rest) st =
     (if ast_rewrite \<notin> rewrites_to_apply
      then sweep env analyzer_options rewrites_to_apply rest st
      else
        (case ensure_options_for_rewrite analyzer_options st of
           (opts, st1) \<Rightarrow>
             (case registry_Get env ast_rewrite of
                None \<Rightarrow>
                  (Some (RetCheckFailure
                     (''Requested rewriter was not present in the registry: '' @
                      ResolvedASTRewrite_Name ast_rewrite)), st1)
              | Some rewriter \<Rightarrow>
                  (case call_Rewrite (BuiltinRewrite ast_rewrite) rewriter opts
                          (increment_count ast_rewrite st1) of
                     (Inl e, st2) \<Rightarrow> (Some e, stop_details_timer ast_rewrite st2)
                   | (Inr None, st2) \<Rightarrow>
                       (Some (RetCheckFailure (''Rewriter '' @ Name rewriter @
                          '' returned nullptr on input'' @ [CHR 0x0A])),
                        stop_details_timer ast_rewrite st2)
                   | (Inr (Some node), st2) \<Rightarrow>
                       sweep env analyzer_options rewrites_to_apply rest
                         (stop_details_timer ast_rewrite
                            (st2 \<lparr> last_rewrite_result := Some node \<rparr>))))))"

text \<open>
  The end of the \<open>do\<close> body: \<open>rewrites_to_apply\<close> is cleared and filled again from the
  scanner's answer for the current tree and the enabled rules, and the anonymization
  rule is erased from it.
\<close>

definition recompute_rewrites_to_apply ::
  "'n Collaborators \<Rightarrow> 'n AnalyzerOptions \<Rightarrow> 'n option \<Rightarrow> error + ResolvedASTRewrite set" where
  "recompute_rewrites_to_apply env analyzer_options tree =
     (case FindRelevantRewriters env tree of
        Inl e \<Rightarrow> Inl e
      | Inr checker_detected_rewrites \<Rightarrow>
          Inr ((enabled_rewrites analyzer_options \<inter> checker_detected_rewrites)
               - {REWRITE_ANONYMIZATION}))"

text \<open>
  The \<open>do ... while (!rewrites_to_apply.empty())\<close> loop; \<open>iterations\<close> is the counter
  before \<open>++iterations\<close>. The loop ends after at most \<open>kMaxIterations\<close> sweeps.
\<close>

function convergence_loop ::
  "'n Collaborators \<Rightarrow> 'n AnalyzerOptions \<Rightarrow> int \<Rightarrow> ResolvedASTRewrite set \<Rightarrow> 'n DriverState
   \<Rightarrow> Status \<times> 'n DriverState" where
  "convergence_loop env analyzer_options iterations rewrites_to_apply st =
     (if iterations + 1 > kMaxIterations then (Some iteration_limit_error, st)
      else
        (case sweep env analyzer_options rewrites_to_apply (registration_order env) st of
           (Some e, st1) \<Rightarrow> (Some e, st1)
         | (None, st1) \<Rightarrow>
             (case recompute_rewrites_to_apply env analyzer_options (last_rewrite_result st1) of
                Inl e \<Rightarrow> (Some e, st1)
              | Inr rewrites_to_apply' \<Rightarrow>
                  if rewrites_to_apply' \<noteq> {}
                  then convergence_loop env analyzer_options (iterations + 1)
                         rewrites_to_apply' st1
                  else (OkStatus, st1))))"
  by pat_completeness auto
termination
  by (relation "measure (\<lambda>(env, analyzer_options, iterations, rewrites_to_apply, st).
        nat (kMaxIterations - iterations))") auto

declare convergence_loop.simps [simp del]

text \<open>
  Relevance synchronisation (the start of the driver): the root must be present; the
  checker's set is computed in debug mode or when the flag is off; in debug mode a
  non-empty resolver set must equal it (the message of that check lists both sets; the
  model keeps a fixed text). The result is the pair of the checker's set and the
  detected set.
\<close>

definition detect_rewrites ::
  "'n Collaborators \<Rightarrow> 'n AnalyzerOutput
   \<Rightarrow> error + (ResolvedASTRewrite set \<times> ResolvedASTRewrite set)" where
  "detect_rewrites env output =
     (let resolver_detected_rewrites = relevant_rewrites (output_properties output);
          rewrite_input = NodeFromAnalyzerOutput output
      in if rewrite_input = None then Inl (RetCheckFailure ''rewrite_input != nullptr'')
         else
           (case (if ZETASQL_DEBUG_MODE env \<or> \<not> FLAGS_zetasql_disable_rewriter_checker env
                  then (case FindRelevantRewriters env rewrite_input of
                          Inl e \<Rightarrow> Inl e
                        | Inr checker_detected_rewrites \<Rightarrow>
                            if ZETASQL_DEBUG_MODE env \<and> resolver_detected_rewrites \<noteq> {}
                               \<and> resolver_detected_rewrites \<noteq> checker_detected_rewrites
                            then Inl (RetCheckFailure ''Resolved/Checker rewrites differ'')
                            else Inr checker_detected_rewrites)
                  else Inr {}) of
              Inl e \<Rightarrow> Inl e
            | Inr checker_detected_rewrites \<Rightarrow>
                Inr (checker_detected_rewrites,
                     if FLAGS_zetasql_disable_rewriter_checker env
                     then resolver_detected_rewrites
                     else checker_detected_rewrites)))"

text \<open>
  The block under \<open>if (options_for_rewrite != nullptr)\<close>: the last result is installed
  with the sequence the options point to, the validator runs when asked for, and the
  fields of the installed root are marked accessed in the legacy mode. The options built
  by \<open>AnalyzerOptionsForRewrite\<close> always hold a sequence.
\<close>

definition validate_output :: "'n Collaborators \<Rightarrow> 'n AnalyzerOptions \<Rightarrow> 'n AnalyzerOutput \<Rightarrow> Status" where
  "validate_output env analyzer_options output =
     (case resolved_statement output of
        Some stmt \<Rightarrow>
          ValidateResolvedStatement env (language analyzer_options)
            (allowed_hints_and_options analyzer_options) stmt
      | None \<Rightarrow>
          (case resolved_expr output of
             None \<Rightarrow> Some (RetCheckFailure ''analyzer_output.resolved_expr() != nullptr'')
           | Some expr \<Rightarrow>
               ValidateStandaloneResolvedExpr env (language analyzer_options)
                 (allowed_hints_and_options analyzer_options) expr))"

definition mark_fields_accessed ::
  "'n AnalyzerOptions \<Rightarrow> 'n DriverState \<Rightarrow> 'n DriverState" where
  "mark_fields_accessed analyzer_options st =
     (if fields_accessed_mode analyzer_options = LEGACY_FIELDS_ACCESSED_MODE
         \<and> NodeFromAnalyzerOutput (analyzer_output st) \<noteq> None
      then st \<lparr> analyzer_output := (analyzer_output st) \<lparr> fields_marked_accessed := True \<rparr> \<rparr>
      else st)"

definition install_result ::
  "'n Collaborators \<Rightarrow> 'n AnalyzerOptions \<Rightarrow> 'n DriverState \<Rightarrow> Status \<times> 'n DriverState" where
  "install_result env analyzer_options st =
     (case options_for_rewrite st of
        None \<Rightarrow> (OkStatus, st)
      | Some opts \<Rightarrow>
          (case column_id_sequence_number opts of
             None \<Rightarrow> (Some (RetCheckFailure ''column_id_sequence_number() != nullptr''), st)
           | Some seq \<Rightarrow>
               (case Update (IsStatement env) (last_rewrite_result st) (sequences st seq)
                       (analyzer_output st) of
                  Inl e \<Rightarrow> (Some e, st \<lparr> last_rewrite_result := None \<rparr>)
                | Inr output' \<Rightarrow>
                    (let st1 = st \<lparr> analyzer_output := output', last_rewrite_result := None \<rparr>
                     in if validate_resolved_ast opts
                        then (case validate_output env analyzer_options output' of
                                Some e \<Rightarrow> (Some e, stop_validator_timer st1)
                              | None \<Rightarrow>
                                  (OkStatus,
                                   mark_fields_accessed analyzer_options
                                     (stop_validator_timer st1)))
                        else (OkStatus, mark_fields_accessed analyzer_options st1)))))"

text \<open>
  The passes of the driver after the two early exits: the leading rewriters, the
  convergence loop when there is a rule to apply, the overall timer, the trailing
  rewriters.
\<close>

definition rewrite_passes ::
  "'n Collaborators \<Rightarrow> 'n AnalyzerOptions \<Rightarrow> ResolvedASTRewrite set \<Rightarrow> 'n DriverState
   \<Rightarrow> Status \<times> 'n DriverState" where
  "rewrite_passes env analyzer_options rewrites_to_apply st =
     (case run_user_rewriters analyzer_options (leading_rewriters analyzer_options) st of
        (Some e, st1) \<Rightarrow> (Some e, st1)
      | (None, st1) \<Rightarrow>
          (case (if rewrites_to_apply \<noteq> {}
                 then convergence_loop env analyzer_options 0 rewrites_to_apply st1
                 else (OkStatus, st1)) of
             (Some e, st2) \<Rightarrow> (Some e, st2)
           | (None, st2) \<Rightarrow>
               run_user_rewriters analyzer_options (trailing_rewriters analyzer_options)
                 (accumulate_rewriter_timer st2)))"

definition InternalRewriteResolvedAstNoConvertErrorLocation ::
  "'n Collaborators \<Rightarrow> 'n AnalyzerOptions \<Rightarrow> SequenceStore \<Rightarrow> 'n AnalyzerOutput
   \<Rightarrow> Status \<times> 'n DriverState" where
  "InternalRewriteResolvedAstNoConvertErrorLocation env analyzer_options seqs output =
     (let st0 = initial_state (seqs(FallbackSequence := 0)) output
      in case detect_rewrites env output of
           Inl e \<Rightarrow> (Some e, st0)
         | Inr (checker_detected_rewrites, detected_rewrites) \<Rightarrow>
             if detected_rewrites = {} \<and> leading_rewriters analyzer_options = []
                \<and> trailing_rewriters analyzer_options = []
             then (OkStatus, accumulate_rewriter_timer st0)
             else
               (let rewrites_to_apply = enabled_rewrites analyzer_options \<inter> detected_rewrites
                in if rewrites_to_apply = {} \<and> leading_rewriters analyzer_options = []
                      \<and> trailing_rewriters analyzer_options = []
                   then (OkStatus, accumulate_rewriter_timer st0)
                   else
                     (case rewrite_passes env analyzer_options rewrites_to_apply st0 of
                        (Some e, st1) \<Rightarrow> (Some e, st1)
                      | (None, st1) \<Rightarrow>
                          (case install_result env analyzer_options st1 of
                             (Some e, st2) \<Rightarrow> (Some e, st2)
                           | (None, st2) \<Rightarrow>
                               if resolved_statement (analyzer_output st2) \<noteq> None
                                  \<or> resolved_expr (analyzer_output st2) \<noteq> None
                               then (OkStatus, st2)
                               else (Some (RetCheckFailure
                                       ''resolved_statement() != nullptr || resolved_expr() != nullptr''),
                                     st2)))))"

text \<open>
  The entry point: the pre-rewrite callback, the guard on the enabled rules and on the
  root, and the inner driver under the error-location conversion. The callback reads
  the output and answers with a status.
\<close>

definition InternalRewriteResolvedAst ::
  "'n Collaborators \<Rightarrow> 'n AnalyzerOptions \<Rightarrow> string \<Rightarrow> SequenceStore \<Rightarrow> 'n AnalyzerOutput
   \<Rightarrow> Status \<times> 'n DriverState" where
  "InternalRewriteResolvedAst env analyzer_options sql seqs output =
     (case (case pre_rewrite_callback analyzer_options of
              None \<Rightarrow> OkStatus
            | Some callback \<Rightarrow> callback output) of
        Some e \<Rightarrow> (Some e, initial_state seqs output)
      | None \<Rightarrow>
          if enabled_rewrites analyzer_options = {}
             \<or> (resolved_statement output = None \<and> resolved_expr output = None)
          then (OkStatus, initial_state seqs output)
          else
            (case InternalRewriteResolvedAstNoConvertErrorLocation env analyzer_options
                    seqs output of
               (status, st) \<Rightarrow>
                 (ConvertInternalErrorLocationAndAdjustErrorString env
                    (error_message_mode analyzer_options)
                    (attach_error_location_payload analyzer_options) sql status,
                  st)))"

text \<open>
  The hypothesis of the iteration bound, in the spec's words "does not converge within
  n sweeps": each of the next \<open>n\<close> sweeps succeeds, the scanner answers after each, and
  the recomputed set of rules to apply is not empty.
\<close>

fun sweeps_without_converging ::
  "'n Collaborators \<Rightarrow> 'n AnalyzerOptions \<Rightarrow> nat \<Rightarrow> ResolvedASTRewrite set \<Rightarrow> 'n DriverState
   \<Rightarrow> bool" where
  "sweeps_without_converging env analyzer_options 0 rewrites_to_apply st = True"
| "sweeps_without_converging env analyzer_options (Suc n) rewrites_to_apply st =
     (case sweep env analyzer_options rewrites_to_apply (registration_order env) st of
        (Some e, st1) \<Rightarrow> False
      | (None, st1) \<Rightarrow>
          (case recompute_rewrites_to_apply env analyzer_options (last_rewrite_result st1) of
             Inl e \<Rightarrow> False
           | Inr rewrites_to_apply' \<Rightarrow>
               rewrites_to_apply' \<noteq> {}
               \<and> sweeps_without_converging env analyzer_options n rewrites_to_apply' st1))"

text \<open>
  What a failure before the installation step leaves of the output: the recorded
  \<open>max_column_id\<close> is the old one, and each root pointer is the old one or null.
\<close>

definition no_tree_installed :: "'n AnalyzerOutput \<Rightarrow> 'n AnalyzerOutput \<Rightarrow> bool" where
  "no_tree_installed output output' =
     (max_column_id output' = max_column_id output
      \<and> (resolved_statement output' = resolved_statement output
           \<or> resolved_statement output' = None)
      \<and> (resolved_expr output' = resolved_expr output \<or> resolved_expr output' = None))"

section \<open>The NULLIFERROR rewriter\<close>

text \<open>
  The part of the resolved AST the rewriter works on: expressions with their types,
  function calls with argument and hint lists, and the options that make up a hint
  list. Types, values, functions and signatures are reduced to what the rewriter reads.
\<close>

datatype Type = TYPE_INT64 | TYPE_STRING | TYPE_BOOL | TYPE_OTHER nat

datatype Value = Null Type | Int64Value int | StringValue string | BoolValue bool

datatype FunctionSignatureId = FN_NULLIFERROR | FN_IFERROR | FN_OTHER nat

record Function =
  function_name :: string
  IsZetaSQLBuiltin :: bool

record FunctionSignature =
  context_id :: FunctionSignatureId

datatype ErrorMode = DEFAULT_ERROR_MODE | SAFE_ERROR_MODE

datatype ResolvedExpr =
    ResolvedLiteral Type Value bool
  | ResolvedColumnRef Type int
  | ResolvedCast Type ResolvedExpr
  | ResolvedFunctionCall Type Function FunctionSignature
      "ResolvedExpr list" "ResolvedOption list" ErrorMode
and ResolvedOption =
    ResolvedOption string string ResolvedExpr

primrec type_of :: "ResolvedExpr \<Rightarrow> Type" where
  "type_of (ResolvedLiteral t v has_explicit_type) = t"
| "type_of (ResolvedColumnRef t column_id) = t"
| "type_of (ResolvedCast t x) = t"
| "type_of (ResolvedFunctionCall t f sig args hints mode) = t"

fun hint_list_size :: "ResolvedExpr \<Rightarrow> nat" where
  "hint_list_size (ResolvedFunctionCall t f sig args hints mode) = length hints"
| "hint_list_size node = 0"

text \<open>
  Modelled from the spec: \<open>IsBuiltInFunctionIdEq\<close> is not among the sources; the spec
  speaks of "built-in NULLIFERROR" calls: the call's signature carries the function id
  and its function is a ZetaSQL built-in.
\<close>

definition IsBuiltInFunctionIdEq :: "ResolvedExpr \<Rightarrow> FunctionSignatureId \<Rightarrow> bool" where
  "IsBuiltInFunctionIdEq node function_signature_id =
     (case node of
        ResolvedFunctionCall t f sig args hints mode \<Rightarrow>
          context_id sig = function_signature_id \<and> IsZetaSQLBuiltin f
      | _ \<Rightarrow> False)"

text \<open>
  Modelled from the spec: \<open>FunctionCallBuilder::IfError\<close> is not among the sources; the
  spec has the call replaced by \<open>IFERROR(x, L)\<close>: a call of the built-in IFERROR on the
  two expressions, of the type of the first, without hints.
\<close>

definition IfError :: "ResolvedExpr \<Rightarrow> ResolvedExpr \<Rightarrow> error + ResolvedExpr" where
  "IfError try_expr handle_expr =
     Inr (ResolvedFunctionCall (type_of try_expr)
            \<lparr> function_name = ''iferror'', IsZetaSQLBuiltin = True \<rparr>
            \<lparr> context_id = FN_IFERROR \<rparr>
            [try_expr, handle_expr] [] DEFAULT_ERROR_MODE)"

text \<open>
  \<open>RewriteNullIfError\<close>: the argument list must have one element; the literal builder
  is given the type of the argument, the null value of that type and
  \<open>has_explicit_type\<close>.
\<close>

fun RewriteNullIfError :: "ResolvedExpr \<Rightarrow> error + ResolvedExpr" where
  "RewriteNullIfError (ResolvedFunctionCall t f sig [try_expr] hints mode) =
     IfError try_expr (ResolvedLiteral (type_of try_expr) (Null (type_of try_expr)) True)"
| "RewriteNullIfError node =
     Inl (RetCheckFailure ''NULLIFERROR should have 1 expression argument.'')"

definition PostVisitResolvedFunctionCall :: "ResolvedExpr \<Rightarrow> error + ResolvedExpr" where
  "PostVisitResolvedFunctionCall node =
     (if \<not> IsBuiltInFunctionIdEq node FN_NULLIFERROR then Inr node
      else if hint_list_size node > 0
      then Inl (Error kUnimplemented ''The NULLIFERROR() operator does not support hints.'')
      else RewriteNullIfError node)"

text \<open>The results of visiting a list of children: the first error, or all the new children.\<close>

fun collect_results :: "(error + 'a) list \<Rightarrow> error + 'a list" where
  "collect_results [] = Inr []"
| "collect_results (Inl e # rest) = Inl e"
| "collect_results (Inr x # rest) =
     (case collect_results rest of Inl e \<Rightarrow> Inl e | Inr xs \<Rightarrow> Inr (x # xs))"

text \<open>
  Modelled from the spec: \<open>ResolvedASTRewriteVisitor::VisitAll\<close> is not among the
  sources; the spec has rewriters as post-order transforms, "recurse, then optionally
  replace the current node", with an identity default for every kind. The visitor of
  this rewriter overrides the hook of function calls only.
\<close>

primrec VisitAll :: "ResolvedExpr \<Rightarrow> error + ResolvedExpr"
  and VisitOption :: "ResolvedOption \<Rightarrow> error + ResolvedOption" where
  "VisitAll (ResolvedLiteral t v has_explicit_type) = Inr (ResolvedLiteral t v has_explicit_type)"
| "VisitAll (ResolvedColumnRef t column_id) = Inr (ResolvedColumnRef t column_id)"
| "VisitAll (ResolvedCast t x) =
     (case VisitAll x of Inl e \<Rightarrow> Inl e | Inr x' \<Rightarrow> Inr (ResolvedCast t x'))"
| "VisitAll (ResolvedFunctionCall t f sig args hints mode) =
     (case collect_results (map VisitAll args) of
        Inl e \<Rightarrow> Inl e
      | Inr args' \<Rightarrow>
          (case collect_results (map VisitOption hints) of
             Inl e \<Rightarrow> Inl e
           | Inr hints' \<Rightarrow>
               PostVisitResolvedFunctionCall
                 (ResolvedFunctionCall t f sig args' hints' mode)))"
| "VisitOption (ResolvedOption qualifier name v) =
     (case VisitAll v of Inl e \<Rightarrow> Inl e | Inr v' \<Rightarrow> Inr (ResolvedOption qualifier name v'))"

text \<open>Whether a tree holds a call of the built-in NULLIFERROR anywhere.\<close>

primrec has_nulliferror :: "ResolvedExpr \<Rightarrow> bool"
  and option_has_nulliferror :: "ResolvedOption \<Rightarrow> bool" where
  "has_nulliferror (ResolvedLiteral t v has_explicit_type) = False"
| "has_nulliferror (ResolvedColumnRef t column_id) = False"
| "has_nulliferror (ResolvedCast t x) = has_nulliferror x"
| "has_nulliferror (ResolvedFunctionCall t f sig args hints mode) =
     ((context_id sig = FN_NULLIFERROR \<and> IsZetaSQLBuiltin f)
      \<or> list_ex id (map has_nulliferror args)
      \<or> list_ex id (map option_has_nulliferror hints))"
| "option_has_nulliferror (ResolvedOption qualifier name v) = has_nulliferror v"

text \<open>
  \<open>NullIfErrorFunctionRewriter\<close>: \<open>Rewrite\<close> checks the id-string pool and the column-id
  sequence of the options and runs the visitor over the input; it draws no column id
  and leaves the output properties alone. The visitor needs a tree to start from.
\<close>

definition NullIfErrorFunctionRewriter :: "ResolvedExpr Rewriter" where
  "NullIfErrorFunctionRewriter =
     \<lparr> Name = ''NullIfErrorFunctionRewriter'',
       Rewrite = (\<lambda>options input seqs output_properties.
         (if id_string_pool options = None
          then Inl (RetCheckFailure ''options.id_string_pool() != nullptr'')
          else if column_id_sequence_number options = None
          then Inl (RetCheckFailure ''options.column_id_sequence_number() != nullptr'')
          else (case input of
                  None \<Rightarrow> Inl (RetCheckFailure ''input != nullptr'')
                | Some tree \<Rightarrow>
                    (case VisitAll tree of Inl e \<Rightarrow> Inl e | Inr tree' \<Rightarrow> Inr (Some tree'))),
          seqs, output_properties)) \<rparr>"

section \<open>Concrete inputs\<close>

text \<open>
  A scanner for the trees above that knows the NULLIFERROR rule, a registry holding the
  NULLIFERROR rewriter, and a conversion layer that marks the messages it has seen.
\<close>

definition example_scanner :: "ResolvedExpr option \<Rightarrow> error + ResolvedASTRewrite set" where
  "example_scanner tree =
     (case tree of
        None \<Rightarrow> Inl (RetCheckFailure ''node != nullptr'')
      | Some t \<Rightarrow> Inr (if has_nulliferror t then {REWRITE_NULLIFERROR_FUNCTION} else {}))"

definition example_convert :: "ErrorMessageMode \<Rightarrow> bool \<Rightarrow> string \<Rightarrow> Status \<Rightarrow> Status" where
  "example_convert mode attach_payload sql status =
     (case status of
        None \<Rightarrow> OkStatus
      | Some e \<Rightarrow> Some (Error (error_code e) (error_message e @ '' [at 1:1]'')))"

definition example_env :: "ResolvedExpr Collaborators" where
  "example_env =
     \<lparr> ZETASQL_DEBUG_MODE = True,
       FLAGS_zetasql_disable_rewriter_checker = False,
       FindRelevantRewriters = example_scanner,
       registration_order = [REWRITE_ANONYMIZATION, REWRITE_NULLIFERROR_FUNCTION],
       registry_Get = (\<lambda>r. if r = REWRITE_NULLIFERROR_FUNCTION
                            then Some NullIfErrorFunctionRewriter else None),
       IsStatement = (\<lambda>n. False),
       ValidateResolvedStatement = (\<lambda>lang allowed n. OkStatus),
       ValidateStandaloneResolvedExpr = (\<lambda>lang allowed n. OkStatus),
       ConvertInternalErrorLocationAndAdjustErrorString = example_convert \<rparr>"

text \<open>
  A rewriter that hands its input back, registered under a rule that a second scanner
  finds in every tree: the spec's "synthetic rewriter that always re-emits its own
  trigger".
\<close>

definition identity_rewriter :: "ResolvedExpr Rewriter" where
  "identity_rewriter =
     \<lparr> Name = ''IdentityRewriter'',
       Rewrite = (\<lambda>options input seqs output_properties.
                    (Inr input, seqs, output_properties)) \<rparr>"

definition looping_env :: "ResolvedExpr Collaborators" where
  "looping_env =
     example_env
       \<lparr> ZETASQL_DEBUG_MODE := False,
         FindRelevantRewriters := (\<lambda>tree. Inr {REWRITE_OTHER 0}),
         registration_order := [REWRITE_OTHER 0],
         registry_Get := (\<lambda>r. if r = REWRITE_OTHER 0 then Some identity_rewriter else None) \<rparr>"

text \<open>A user rewriter that wraps its input into a call of the built-in NULLIFERROR.\<close>

definition nulliferror_call :: "ResolvedExpr \<Rightarrow> ResolvedExpr" where
  "nulliferror_call x =
     ResolvedFunctionCall (type_of x)
       \<lparr> function_name = ''nulliferror'', IsZetaSQLBuiltin = True \<rparr>
       \<lparr> context_id = FN_NULLIFERROR \<rparr> [x] [] DEFAULT_ERROR_MODE"

definition wrapping_rewriter :: "ResolvedExpr Rewriter" where
  "wrapping_rewriter =
     \<lparr> Name = ''WrappingRewriter'',
       Rewrite = (\<lambda>options input seqs output_properties.
                    (Inr (map_option nulliferror_call input), seqs, output_properties)) \<rparr>"

definition example_options :: "ResolvedExpr AnalyzerOptions" where
  "example_options =
     \<lparr> language = \<lparr> name_resolution_mode = NAME_RESOLUTION_DEFAULT,
                    enabled_language_features = {} \<rparr>,
       allow_undeclared_parameters = True,
       parameter_mode = PARAMETER_POSITIONAL,
       statement_context = CONTEXT_MODULE,
       arena = None,
       id_string_pool = None,
       expression_columns = [(''col'', ''INT64'')],
       column_id_sequence_number = None,
       enabled_rewrites = {REWRITE_NULLIFERROR_FUNCTION},
       error_message_mode = ERROR_MESSAGE_ONE_LINE,
       attach_error_location_payload = False,
       fields_accessed_mode = LEGACY_FIELDS_ACCESSED_MODE,
       validate_resolved_ast = True,
       allowed_hints_and_options = [],
       leading_rewriters = [],
       trailing_rewriters = [],
       pre_rewrite_callback = None \<rparr>"

definition example_runtime_info :: AnalyzerRuntimeInfo where
  "example_runtime_info =
     \<lparr> rewriters_timed_value = 0,
       rewriters_details = (\<lambda>r. \<lparr> count = 0, timed_value = 0 \<rparr>),
       validator_timed_value = 0 \<rparr>"

text \<open>The standalone expression \<open>NULLIFERROR(x)\<close> over a column \<open>x\<close> with id 3.\<close>

definition example_output :: "ResolvedExpr AnalyzerOutput" where
  "example_output =
     \<lparr> resolved_statement = None,
       resolved_expr = Some (nulliferror_call (ResolvedColumnRef TYPE_INT64 3)),
       max_column_id = 3,
       output_arena = Some 1,
       output_id_string_pool = Some 2,
       output_properties = \<lparr> relevant_rewrites = {REWRITE_NULLIFERROR_FUNCTION} \<rparr>,
       runtime_info = example_runtime_info,
       fields_marked_accessed = False \<rparr>"

definition example_sequences :: SequenceStore where
  "example_sequences = (\<lambda>p. 0)"

text \<open>A pre-rewrite callback that rejects every output, and a hinted NULLIFERROR call.\<close>

definition rejecting_callback :: "ResolvedExpr AnalyzerOutput \<Rightarrow> Status" where
  "rejecting_callback output = Some (Error kInvalidArgument ''rejected by callback'')"

definition hinted_nulliferror_call :: ResolvedExpr where
  "hinted_nulliferror_call =
     ResolvedFunctionCall TYPE_INT64
       \<lparr> function_name = ''nulliferror'', IsZetaSQLBuiltin = True \<rparr>
       \<lparr> context_id = FN_NULLIFERROR \<rparr>
       [ResolvedColumnRef TYPE_INT64 3]
       [ResolvedOption [] ''key'' (ResolvedLiteral TYPE_INT64 (Int64Value 1) False)]
       DEFAULT_ERROR_MODE"

text \<open>
  The collaborators of the example with a validator that rejects every standalone
  expression, the tree the NULLIFERROR rewriter makes of the example, and the
  collaborators with debug mode off and the disable-checker flag on.
\<close>

definition rejecting_validator_env :: "ResolvedExpr Collaborators" where
  "rejecting_validator_env =
     example_env
       \<lparr> ValidateStandaloneResolvedExpr :=
           (\<lambda>lang allowed n. Some (Error kInvalidArgument ''rejected by validator'')) \<rparr>"

definition rewritten_example :: ResolvedExpr where
  "rewritten_example =
     ResolvedFunctionCall TYPE_INT64
       \<lparr> function_name = ''iferror'', IsZetaSQLBuiltin = True \<rparr>
       \<lparr> context_id = FN_IFERROR \<rparr>
       [ResolvedColumnRef TYPE_INT64 3, ResolvedLiteral TYPE_INT64 (Null TYPE_INT64) True] []
       DEFAULT_ERROR_MODE"

definition unchecked_env :: "ResolvedExpr Collaborators" where
  "unchecked_env =
     example_env \<lparr> ZETASQL_DEBUG_MODE := False,
                   FLAGS_zetasql_disable_rewriter_checker := True \<rparr>"

text \<open>
  An output whose tree is a plain column reference, the options with the looping rule
  enabled, and the options with the wrapping rewriter as trailing rewriter and as both
  leading and trailing rewriter.
\<close>

definition plain_output :: "ResolvedExpr AnalyzerOutput" where
  "plain_output =
     example_output \<lparr> resolved_expr := Some (ResolvedColumnRef TYPE_INT64 3),
                      output_properties := \<lparr> relevant_rewrites = {} \<rparr> \<rparr>"

definition looping_options :: "ResolvedExpr AnalyzerOptions" where
  "looping_options = example_options \<lparr> enabled_rewrites := {REWRITE_OTHER 0} \<rparr>"

definition trailing_options :: "ResolvedExpr AnalyzerOptions" where
  "trailing_options = example_options \<lparr> trailing_rewriters := [wrapping_rewriter] \<rparr>"

definition wrapping_options :: "ResolvedExpr AnalyzerOptions" where
  "wrapping_options =
     example_options \<lparr> leading_rewriters := [wrapping_rewriter],
                       trailing_rewriters := [wrapping_rewriter] \<rparr>"

section \<open>The invariant of the rewrite passes\<close>

text \<open>
  What holds of the driver's state from its start up to the installation step, relative
  to the output the driver was given: \<open>max_column_id\<close> is untouched; the count and the
  timer of every rule have moved by the number of calls of that rule's built-in
  rewriter; and either no options have been built, the roots are untouched and no
  rewriter has been called, or the options exist and the root has been released.
\<close>

definition driver_invariant :: "'n AnalyzerOutput \<Rightarrow> 'n DriverState \<Rightarrow> bool" where
  "driver_invariant output st =
     (max_column_id (analyzer_output st) = max_column_id output
      \<and> (\<forall>r. count (rewriters_details (runtime_info (analyzer_output st)) r)
                = count (rewriters_details (runtime_info output) r)
                  + int (count_list (rewriter_calls st) (BuiltinRewrite r)))
      \<and> (\<forall>r. timed_value (rewriters_details (runtime_info (analyzer_output st)) r)
                = timed_value (rewriters_details (runtime_info output) r)
                  + count_list (rewriter_calls st) (BuiltinRewrite r))
      \<and> (case options_for_rewrite st of
            None \<Rightarrow>
              resolved_statement (analyzer_output st) = resolved_statement output
              \<and> resolved_expr (analyzer_output st) = resolved_expr output
              \<and> rewriter_calls st = []
          | Some opts \<Rightarrow>
              resolved_statement (analyzer_output st) = None
              \<and> resolved_expr (analyzer_output st)
                  = (if resolved_statement output \<noteq> None then resolved_expr output
                     else None)))"

text \<open>
  A property of the state is kept by the passes when each of their elementary steps
  keeps it: building the options, a call of a user rewriter or of a built-in rewriter
  (with its count and timer) followed by storing its result, and stopping the overall
  timer. Rewriters are called only once the options exist.
\<close>

definition kept_by_steps :: "'n AnalyzerOptions \<Rightarrow> ('n DriverState \<Rightarrow> bool) \<Rightarrow> bool" where
  "kept_by_steps analyzer_options P =
     ((\<forall>st. P st \<longrightarrow> P (snd (ensure_options_for_rewrite analyzer_options st)))
      \<and> (\<forall>st name rewriter opts node.
            P st \<and> options_for_rewrite st \<noteq> None \<longrightarrow>
            P ((snd (call_Rewrite (UserRewrite name) rewriter opts st))
                 \<lparr> last_rewrite_result := node \<rparr>))
      \<and> (\<forall>st r rewriter opts node.
            P st \<and> options_for_rewrite st \<noteq> None \<longrightarrow>
            P (stop_details_timer r
                 ((snd (call_Rewrite (BuiltinRewrite r) rewriter opts (increment_count r st)))
                    \<lparr> last_rewrite_result := node \<rparr>)))
      \<and> (\<forall>st. P st \<longrightarrow> P (accumulate_rewriter_timer st)))"

section \<open>The options builder and the column-id sequence\<close>

lemma advance_sequence_eq: "advance_sequence s m = (max s m, max s m + 1)"
proof (induction s m rule: advance_sequence.induct)
  case (1 s m)
  show ?case
  proof (cases "s < m")
    case True
    then have "advance_sequence s m = advance_sequence (s + 1) m"
      by (subst advance_sequence.simps) (simp add: GetNext_def)
    also have "\<dots> = (max (s + 1) m, max (s + 1) m + 1)"
      using 1 True by (simp add: GetNext_def)
    finally show ?thesis using True by (simp add: max_def)
  next
    case False
    then show ?thesis
      by (subst advance_sequence.simps) (simp add: GetNext_def max_def)
  qed
qed

text \<open>
  Claim C3, as the code has it: when the base options own a column-id sequence, the
  options for the rewrite keep that pointer and nothing is drawn from the fallback
  sequence. Otherwise the options point at the fallback sequence, which has been
  advanced by drawing and discarding values until the drawn value is greater than or
  equal to \<open>max_column_id\<close> of the output: the last draw is the larger of the
  fallback's start and \<open>max_column_id\<close>, and the next value handed out exceeds
  \<open>max_column_id\<close>.
\<close>

theorem AnalyzerOptionsForRewrite_sequence:
  "(column_id_sequence_number analyzer_options \<noteq> None \<longrightarrow>
      column_id_sequence_number (fst (AnalyzerOptionsForRewrite analyzer_options output fallback))
        = column_id_sequence_number analyzer_options
      \<and> snd (AnalyzerOptionsForRewrite analyzer_options output fallback) = fallback)
   \<and> (column_id_sequence_number analyzer_options = None \<longrightarrow>
      column_id_sequence_number (fst (AnalyzerOptionsForRewrite analyzer_options output fallback))
        = Some FallbackSequence
      \<and> snd (AnalyzerOptionsForRewrite analyzer_options output fallback)
          = snd (advance_sequence fallback (max_column_id output))
      \<and> fst (advance_sequence fallback (max_column_id output))
          = max fallback (max_column_id output)
      \<and> max_column_id output \<le> fst (advance_sequence fallback (max_column_id output))
      \<and> max_column_id output
          < fst (GetNext (snd (AnalyzerOptionsForRewrite analyzer_options output fallback))))"
  by (simp add: AnalyzerOptionsForRewrite_def Let_def advance_sequence_eq GetNext_def)

theorem AnalyzerOptionsForRewrite_sequence_witness:
  "column_id_sequence_number (example_options \<lparr> column_id_sequence_number := Some ExternalSequence \<rparr>) \<noteq> None
   \<and> column_id_sequence_number (fst (AnalyzerOptionsForRewrite
         (example_options \<lparr> column_id_sequence_number := Some ExternalSequence \<rparr>) example_output 0))
       = Some ExternalSequence
   \<and> snd (AnalyzerOptionsForRewrite
         (example_options \<lparr> column_id_sequence_number := Some ExternalSequence \<rparr>) example_output 0) = 0
   \<and> column_id_sequence_number example_options = None
   \<and> column_id_sequence_number (fst (AnalyzerOptionsForRewrite example_options example_output 0))
       = Some FallbackSequence
   \<and> fst (advance_sequence 0 (max_column_id example_output)) = 3
   \<and> snd (AnalyzerOptionsForRewrite example_options example_output 0) = 4"
  using AnalyzerOptionsForRewrite_sequence
          [of "example_options \<lparr> column_id_sequence_number := Some ExternalSequence \<rparr>"
              example_output 0]
        AnalyzerOptionsForRewrite_sequence [of example_options example_output 0]
  by (simp add: example_options_def example_output_def advance_sequence_eq)

text \<open>
  The loop does not draw until the value is strictly greater than \<open>max_column_id\<close>:
  from a fresh fallback sequence and \<open>max_column_id = 3\<close> the last draw is 3.
\<close>

theorem advance_sequence_counterexample:
  "fst (advance_sequence 0 (max_column_id example_output)) = 3
   \<and> max_column_id example_output = 3
   \<and> \<not> (max_column_id example_output < fst (advance_sequence 0 (max_column_id example_output)))"
  by (simp add: advance_sequence_eq example_output_def)

section \<open>The NULLIFERROR rewriter\<close>









section \<open>The entry point\<close>

text \<open>
  Claim C8: the entry point first calls the pre-rewrite callback, when one is set, on
  the output, and an error of the callback is returned at once; after that, when no
  rule is enabled or the output has neither a statement nor an expression, it returns
  success, with the output and the sequences as they were and no rewriter called.
\<close>

theorem InternalRewriteResolvedAst_preconditions:
  "(pre_rewrite_callback analyzer_options = Some callback \<and> callback output = Some e \<longrightarrow>
      InternalRewriteResolvedAst env analyzer_options sql seqs output
        = (Some e, initial_state seqs output))
   \<and> ((pre_rewrite_callback analyzer_options = None
        \<or> (pre_rewrite_callback analyzer_options = Some callback \<and> callback output = OkStatus))
       \<and> (enabled_rewrites analyzer_options = {}
            \<or> (resolved_statement output = None \<and> resolved_expr output = None)) \<longrightarrow>
      InternalRewriteResolvedAst env analyzer_options sql seqs output
        = (OkStatus, initial_state seqs output))
   \<and> analyzer_output (initial_state seqs output) = output
   \<and> sequences (initial_state seqs output) = seqs
   \<and> rewriter_calls (initial_state seqs output) = []"
  by (auto simp: InternalRewriteResolvedAst_def initial_state_def)

theorem InternalRewriteResolvedAst_preconditions_witness:
  "pre_rewrite_callback (example_options \<lparr> pre_rewrite_callback := Some rejecting_callback \<rparr>)
     = Some rejecting_callback
   \<and> rejecting_callback example_output = Some (Error kInvalidArgument ''rejected by callback'')
   \<and> InternalRewriteResolvedAst example_env
        (example_options \<lparr> pre_rewrite_callback := Some rejecting_callback \<rparr>)
        ''SELECT NULLIFERROR(x)'' example_sequences example_output
      = (Some (Error kInvalidArgument ''rejected by callback''),
         initial_state example_sequences example_output)
   \<and> pre_rewrite_callback example_options = None
   \<and> resolved_statement (example_output \<lparr> resolved_expr := None \<rparr>) = None
   \<and> resolved_expr (example_output \<lparr> resolved_expr := None \<rparr>) = None
   \<and> InternalRewriteResolvedAst example_env example_options ''SELECT NULLIFERROR(x)''
        example_sequences (example_output \<lparr> resolved_expr := None \<rparr>)
      = (OkStatus, initial_state example_sequences (example_output \<lparr> resolved_expr := None \<rparr>))"
  using InternalRewriteResolvedAst_preconditions
          [of "example_options \<lparr> pre_rewrite_callback := Some rejecting_callback \<rparr>"
              rejecting_callback example_output "Error kInvalidArgument ''rejected by callback''"
              example_env "''SELECT NULLIFERROR(x)''" example_sequences]
        InternalRewriteResolvedAst_preconditions
          [of example_options rejecting_callback "example_output \<lparr> resolved_expr := None \<rparr>"
              "Error kInvalidArgument ''rejected by callback''"
              example_env "''SELECT NULLIFERROR(x)''" example_sequences]
  by (simp add: example_options_def example_output_def rejecting_callback_def)

text \<open>
  Claim C4, as the code has it: an error of the pre-rewrite callback is returned as it
  is, without conversion; when the callback passes and the guard on the enabled rules
  and the root lets the inner driver run, the status the entry point returns is the
  conversion (by \<open>error_message_mode\<close>, \<open>attach_error_location_payload\<close> and the SQL
  text) of the status of the inner driver, whatever error that is.
\<close>

theorem error_location_conversion:
  "(pre_rewrite_callback analyzer_options = Some callback \<and> callback output = Some e \<longrightarrow>
      fst (InternalRewriteResolvedAst env analyzer_options sql seqs output) = Some e)
   \<and> ((pre_rewrite_callback analyzer_options = None
        \<or> (pre_rewrite_callback analyzer_options = Some callback \<and> callback output = OkStatus))
       \<and> enabled_rewrites analyzer_options \<noteq> {}
       \<and> (resolved_statement output \<noteq> None \<or> resolved_expr output \<noteq> None) \<longrightarrow>
      InternalRewriteResolvedAst env analyzer_options sql seqs output
        = (ConvertInternalErrorLocationAndAdjustErrorString env
             (error_message_mode analyzer_options)
             (attach_error_location_payload analyzer_options) sql
             (fst (InternalRewriteResolvedAstNoConvertErrorLocation env analyzer_options
                     seqs output)),
           snd (InternalRewriteResolvedAstNoConvertErrorLocation env analyzer_options
                  seqs output)))"
  by (auto simp: InternalRewriteResolvedAst_def split: prod.splits)

lemma hinted_example_inner_status:
  "fst (InternalRewriteResolvedAstNoConvertErrorLocation example_env example_options
          example_sequences (example_output \<lparr> resolved_expr := Some hinted_nulliferror_call \<rparr>))
     = Some (Error kUnimplemented ''The NULLIFERROR() operator does not support hints.'')"
  by code_simp

theorem error_location_conversion_witness:
  "fst (InternalRewriteResolvedAst example_env
          (example_options \<lparr> pre_rewrite_callback := Some rejecting_callback \<rparr>)
          ''SELECT NULLIFERROR(x)'' example_sequences example_output)
     = Some (Error kInvalidArgument ''rejected by callback'')
   \<and> pre_rewrite_callback example_options = None
   \<and> enabled_rewrites example_options \<noteq> {}
   \<and> resolved_expr (example_output \<lparr> resolved_expr := Some hinted_nulliferror_call \<rparr>) \<noteq> None
   \<and> fst (InternalRewriteResolvedAst example_env example_options ''SELECT NULLIFERROR(x)''
            example_sequences (example_output \<lparr> resolved_expr := Some hinted_nulliferror_call \<rparr>))
     = Some (Error kUnimplemented
               ''The NULLIFERROR() operator does not support hints. [at 1:1]'')"
proof -
  have cb: "pre_rewrite_callback (example_options \<lparr> pre_rewrite_callback := Some rejecting_callback \<rparr>)
              = Some rejecting_callback
            \<and> rejecting_callback example_output
              = Some (Error kInvalidArgument ''rejected by callback'')"
    by (simp add: rejecting_callback_def)
  have pre: "pre_rewrite_callback example_options = None
      \<and> enabled_rewrites example_options \<noteq> {}
      \<and> resolved_expr (example_output \<lparr> resolved_expr := Some hinted_nulliferror_call \<rparr>) \<noteq> None"
    by (simp add: example_options_def)
  have conv: "ConvertInternalErrorLocationAndAdjustErrorString example_env
        (error_message_mode example_options) (attach_error_location_payload example_options)
        ''SELECT NULLIFERROR(x)''
        (Some (Error kUnimplemented ''The NULLIFERROR() operator does not support hints.''))
      = Some (Error kUnimplemented
                ''The NULLIFERROR() operator does not support hints. [at 1:1]'')"
    by (simp add: example_env_def example_convert_def)
  show ?thesis
    using cb pre conv hinted_example_inner_status
      error_location_conversion
        [of "example_options \<lparr> pre_rewrite_callback := Some rejecting_callback \<rparr>"
            rejecting_callback example_output "Error kInvalidArgument ''rejected by callback''"
            example_env "''SELECT NULLIFERROR(x)''" example_sequences]
      error_location_conversion
        [of example_options rejecting_callback
            "example_output \<lparr> resolved_expr := Some hinted_nulliferror_call \<rparr>"
            "Error kInvalidArgument ''rejected by callback''"
            example_env "''SELECT NULLIFERROR(x)''" example_sequences]
    by simp
qed

text \<open>
  The error of a failing pre-rewrite callback comes back unconverted, where the
  conversion layer of the example would have marked its message.
\<close>

theorem callback_error_counterexample:
  "fst (InternalRewriteResolvedAst example_env
          (example_options \<lparr> pre_rewrite_callback := Some rejecting_callback \<rparr>)
          ''SELECT NULLIFERROR(x)'' example_sequences example_output)
     = Some (Error kInvalidArgument ''rejected by callback'')
   \<and> ConvertInternalErrorLocationAndAdjustErrorString example_env
        (error_message_mode example_options) (attach_error_location_payload example_options)
        ''SELECT NULLIFERROR(x)'' (Some (Error kInvalidArgument ''rejected by callback''))
     = Some (Error kInvalidArgument ''rejected by callback [at 1:1]'')"
  by (simp add: InternalRewriteResolvedAst_def example_options_def rejecting_callback_def
        example_env_def example_convert_def)

section \<open>Relevance synchronisation\<close>

lemma NoConvert_by_detected:
  assumes "detect_rewrites env out = Inr (checker, detected)"
  shows "InternalRewriteResolvedAstNoConvertErrorLocation env analyzer_options seqs out =
     (if enabled_rewrites analyzer_options \<inter> detected = {}
         \<and> leading_rewriters analyzer_options = []
         \<and> trailing_rewriters analyzer_options = []
      then (OkStatus, accumulate_rewriter_timer (initial_state (seqs(FallbackSequence := 0)) out))
      else (case rewrite_passes env analyzer_options
                   (enabled_rewrites analyzer_options \<inter> detected)
                   (initial_state (seqs(FallbackSequence := 0)) out) of
              (Some err, st1) \<Rightarrow> (Some err, st1)
            | (None, st1) \<Rightarrow>
                (case install_result env analyzer_options st1 of
                   (Some err, st2) \<Rightarrow> (Some err, st2)
                 | (None, st2) \<Rightarrow>
                     if resolved_statement (analyzer_output st2) \<noteq> None
                        \<or> resolved_expr (analyzer_output st2) \<noteq> None
                     then (OkStatus, st2)
                     else (Some (RetCheckFailure
                             ''resolved_statement() != nullptr || resolved_expr() != nullptr''),
                           st2))))"
proof (cases "detected = {}")
  case True
  then show ?thesis
    using assms by (simp add: InternalRewriteResolvedAstNoConvertErrorLocation_def Let_def)
next
  case False
  then show ?thesis
    using assms by (simp add: InternalRewriteResolvedAstNoConvertErrorLocation_def Let_def)
qed

lemma rewrite_passes_first_loop:
  assumes "run_user_rewriters analyzer_options (leading_rewriters analyzer_options) st
             = (OkStatus, st1)"
    and "rewrites_to_apply \<noteq> {}"
  shows "rewrite_passes env analyzer_options rewrites_to_apply st =
     (case convergence_loop env analyzer_options 0 rewrites_to_apply st1 of
        (Some err, st2) \<Rightarrow> (Some err, st2)
      | (None, st2) \<Rightarrow>
          run_user_rewriters analyzer_options (trailing_rewriters analyzer_options)
            (accumulate_rewriter_timer st2))"
  using assms by (simp add: rewrite_passes_def)

lemma convergence_loop_first_sweep:
  "convergence_loop env analyzer_options 0 rewrites_to_apply st1 =
     (case sweep env analyzer_options rewrites_to_apply (registration_order env) st1 of
        (Some err, st2) \<Rightarrow> (Some err, st2)
      | (None, st2) \<Rightarrow>
          (case recompute_rewrites_to_apply env analyzer_options (last_rewrite_result st2) of
             Inl err \<Rightarrow> (Some err, st2)
           | Inr rewrites_to_apply' \<Rightarrow>
               if rewrites_to_apply' \<noteq> {}
               then convergence_loop env analyzer_options 1 rewrites_to_apply' st2
               else (OkStatus, st2)))"
  by (subst convergence_loop.simps)
     (simp add: kMaxIterations_def split: prod.splits option.splits sum.splits)

lemma detect_rewrites_sync:
  "NodeFromAnalyzerOutput output = Some root \<longrightarrow>
   (ZETASQL_DEBUG_MODE env \<or> \<not> FLAGS_zetasql_disable_rewriter_checker env \<longrightarrow>
      (FindRelevantRewriters env (Some root) = Inl e \<longrightarrow> detect_rewrites env output = Inl e)
      \<and> (FindRelevantRewriters env (Some root) = Inr checker \<longrightarrow>
           (if ZETASQL_DEBUG_MODE env \<and> relevant_rewrites (output_properties output) \<noteq> {}
               \<and> relevant_rewrites (output_properties output) \<noteq> checker
            then detect_rewrites env output
                   = Inl (RetCheckFailure ''Resolved/Checker rewrites differ'')
            else detect_rewrites env output
                   = Inr (checker,
                          if FLAGS_zetasql_disable_rewriter_checker env
                          then relevant_rewrites (output_properties output)
                          else checker))))
   \<and> (\<not> ZETASQL_DEBUG_MODE env \<and> FLAGS_zetasql_disable_rewriter_checker env \<longrightarrow>
        detect_rewrites env output = Inr ({}, relevant_rewrites (output_properties output)))
   \<and> (detect_rewrites env output = Inl e' \<longrightarrow>
        InternalRewriteResolvedAstNoConvertErrorLocation env analyzer_options seqs output
          = (Some e', initial_state (seqs(FallbackSequence := 0)) output))"
  by (auto simp: detect_rewrites_def Let_def InternalRewriteResolvedAstNoConvertErrorLocation_def)

text \<open>
  Claim C5: for an output with a root, the checker's set is computed (and an error of
  the scanner is returned) whenever debug mode is on or the disable-checker flag is
  off; in debug mode a non-empty resolver set that differs from the checker's set is a
  failed check; the detected set is the checker's set, or the resolver's set when the
  flag is on. With debug mode off and the flag on the scanner is not consulted. An
  error of this step is the result of the driver. The detected set is the one the
  driver goes on with: both early exits test it, and the passes, the convergence loop
  and its first sweep run on the enabled rules of the detected set.
\<close>

theorem relevance_synchronisation:
  "NodeFromAnalyzerOutput output = Some root \<longrightarrow>
   (ZETASQL_DEBUG_MODE env \<or> \<not> FLAGS_zetasql_disable_rewriter_checker env \<longrightarrow>
      (FindRelevantRewriters env (Some root) = Inl e \<longrightarrow> detect_rewrites env output = Inl e)
      \<and> (FindRelevantRewriters env (Some root) = Inr checker \<longrightarrow>
           (if ZETASQL_DEBUG_MODE env \<and> relevant_rewrites (output_properties output) \<noteq> {}
               \<and> relevant_rewrites (output_properties output) \<noteq> checker
            then detect_rewrites env output
                   = Inl (RetCheckFailure ''Resolved/Checker rewrites differ'')
            else detect_rewrites env output
                   = Inr (checker,
                          if FLAGS_zetasql_disable_rewriter_checker env
                          then relevant_rewrites (output_properties output)
                          else checker))))
   \<and> (\<not> ZETASQL_DEBUG_MODE env \<and> FLAGS_zetasql_disable_rewriter_checker env \<longrightarrow>
        detect_rewrites env output = Inr ({}, relevant_rewrites (output_properties output)))
   \<and> (detect_rewrites env output = Inl e' \<longrightarrow>
        InternalRewriteResolvedAstNoConvertErrorLocation env analyzer_options seqs output
          = (Some e', initial_state (seqs(FallbackSequence := 0)) output))
   \<and> (detect_rewrites env output = Inr (checker', detected) \<longrightarrow>
        InternalRewriteResolvedAstNoConvertErrorLocation env analyzer_options seqs output =
          (if enabled_rewrites analyzer_options \<inter> detected = {}
              \<and> leading_rewriters analyzer_options = []
              \<and> trailing_rewriters analyzer_options = []
           then (OkStatus,
                 accumulate_rewriter_timer (initial_state (seqs(FallbackSequence := 0)) output))
           else (case rewrite_passes env analyzer_options
                        (enabled_rewrites analyzer_options \<inter> detected)
                        (initial_state (seqs(FallbackSequence := 0)) output) of
                   (Some err, st1) \<Rightarrow> (Some err, st1)
                 | (None, st1) \<Rightarrow>
                     (case install_result env analyzer_options st1 of
                        (Some err, st2) \<Rightarrow> (Some err, st2)
                      | (None, st2) \<Rightarrow>
                          if resolved_statement (analyzer_output st2) \<noteq> None
                             \<or> resolved_expr (analyzer_output st2) \<noteq> None
                          then (OkStatus, st2)
                          else (Some (RetCheckFailure
                                  ''resolved_statement() != nullptr || resolved_expr() != nullptr''),
                                st2)))))
   \<and> (detect_rewrites env output = Inr (checker', detected)
       \<and> enabled_rewrites analyzer_options \<inter> detected \<noteq> {}
       \<and> run_user_rewriters analyzer_options (leading_rewriters analyzer_options)
            (initial_state (seqs(FallbackSequence := 0)) output) = (OkStatus, st)
       \<longrightarrow>
        rewrite_passes env analyzer_options (enabled_rewrites analyzer_options \<inter> detected)
          (initial_state (seqs(FallbackSequence := 0)) output) =
          (case convergence_loop env analyzer_options 0
                  (enabled_rewrites analyzer_options \<inter> detected) st of
             (Some err, st2) \<Rightarrow> (Some err, st2)
           | (None, st2) \<Rightarrow>
               run_user_rewriters analyzer_options (trailing_rewriters analyzer_options)
                 (accumulate_rewriter_timer st2))
        \<and> convergence_loop env analyzer_options 0
             (enabled_rewrites analyzer_options \<inter> detected) st =
          (case sweep env analyzer_options (enabled_rewrites analyzer_options \<inter> detected)
                  (registration_order env) st of
             (Some err, st2) \<Rightarrow> (Some err, st2)
           | (None, st2) \<Rightarrow>
               (case recompute_rewrites_to_apply env analyzer_options
                       (last_rewrite_result st2) of
                  Inl err \<Rightarrow> (Some err, st2)
                | Inr rewrites_to_apply' \<Rightarrow>
                    if rewrites_to_apply' \<noteq> {}
                    then convergence_loop env analyzer_options 1 rewrites_to_apply' st2
                    else (OkStatus, st2))))"
  using detect_rewrites_sync [of "output" root env e checker e' analyzer_options seqs]
        NoConvert_by_detected [of env "output" checker' detected analyzer_options seqs]
        rewrite_passes_first_loop
          [of analyzer_options "initial_state (seqs(FallbackSequence := 0)) output" st
              "enabled_rewrites analyzer_options \<inter> detected" env]
        convergence_loop_first_sweep
          [of env analyzer_options "enabled_rewrites analyzer_options \<inter> detected" st]
  by blast

lemma unchecked_run:
  "rewriter_calls (snd (InternalRewriteResolvedAstNoConvertErrorLocation unchecked_env
      example_options example_sequences example_output))
     = [BuiltinRewrite REWRITE_NULLIFERROR_FUNCTION]"
  by code_simp

theorem relevance_synchronisation_witness:
  "(NodeFromAnalyzerOutput example_output
     = Some (nulliferror_call (ResolvedColumnRef TYPE_INT64 3))
   \<and> ZETASQL_DEBUG_MODE example_env
   \<and> FindRelevantRewriters example_env (Some (nulliferror_call (ResolvedColumnRef TYPE_INT64 3)))
       = Inr {REWRITE_NULLIFERROR_FUNCTION}
   \<and> detect_rewrites example_env example_output
       = Inr ({REWRITE_NULLIFERROR_FUNCTION}, {REWRITE_NULLIFERROR_FUNCTION})
   \<and> detect_rewrites example_env
        (example_output \<lparr> output_properties := \<lparr> relevant_rewrites = {REWRITE_ANONYMIZATION} \<rparr> \<rparr>)
       = Inl (RetCheckFailure ''Resolved/Checker rewrites differ'')
   \<and> InternalRewriteResolvedAstNoConvertErrorLocation example_env example_options
        example_sequences
        (example_output \<lparr> output_properties := \<lparr> relevant_rewrites = {REWRITE_ANONYMIZATION} \<rparr> \<rparr>)
       = (Some (RetCheckFailure ''Resolved/Checker rewrites differ''),
          initial_state (example_sequences(FallbackSequence := 0))
            (example_output \<lparr> output_properties := \<lparr> relevant_rewrites = {REWRITE_ANONYMIZATION} \<rparr> \<rparr>))
   \<and> detect_rewrites
        (example_env \<lparr> ZETASQL_DEBUG_MODE := False,
                       FLAGS_zetasql_disable_rewriter_checker := True \<rparr>)
        (example_output \<lparr> output_properties := \<lparr> relevant_rewrites = {REWRITE_ANONYMIZATION} \<rparr> \<rparr>)
       = Inr ({}, {REWRITE_ANONYMIZATION}))
   \<and> detect_rewrites unchecked_env example_output = Inr ({}, {REWRITE_NULLIFERROR_FUNCTION})
   \<and> enabled_rewrites example_options \<inter> {REWRITE_NULLIFERROR_FUNCTION} \<noteq> {}
   \<and> InternalRewriteResolvedAstNoConvertErrorLocation unchecked_env example_options
        example_sequences example_output
       = (case rewrite_passes unchecked_env example_options
                 (enabled_rewrites example_options \<inter> {REWRITE_NULLIFERROR_FUNCTION})
                 (initial_state (example_sequences(FallbackSequence := 0)) example_output) of
            (Some err, st1) \<Rightarrow> (Some err, st1)
          | (None, st1) \<Rightarrow>
              (case install_result unchecked_env example_options st1 of
                 (Some err, st2) \<Rightarrow> (Some err, st2)
               | (None, st2) \<Rightarrow>
                   if resolved_statement (analyzer_output st2) \<noteq> None
                      \<or> resolved_expr (analyzer_output st2) \<noteq> None
                   then (OkStatus, st2)
                   else (Some (RetCheckFailure
                           ''resolved_statement() != nullptr || resolved_expr() != nullptr''),
                         st2)))
   \<and> rewriter_calls (snd (InternalRewriteResolvedAstNoConvertErrorLocation unchecked_env
        example_options example_sequences example_output))
       = [BuiltinRewrite REWRITE_NULLIFERROR_FUNCTION]
   \<and> rewrite_passes unchecked_env example_options
        (enabled_rewrites example_options \<inter> {REWRITE_NULLIFERROR_FUNCTION})
        (initial_state (example_sequences(FallbackSequence := 0)) example_output)
       = (case convergence_loop unchecked_env example_options 0
                 (enabled_rewrites example_options \<inter> {REWRITE_NULLIFERROR_FUNCTION})
                 (initial_state (example_sequences(FallbackSequence := 0)) example_output) of
            (Some err, st2) \<Rightarrow> (Some err, st2)
          | (None, st2) \<Rightarrow>
              run_user_rewriters example_options (trailing_rewriters example_options)
                (accumulate_rewriter_timer st2))
   \<and> detect_rewrites unchecked_env
        (example_output \<lparr> output_properties := \<lparr> relevant_rewrites = {} \<rparr> \<rparr>)
       = Inr ({}, {})
   \<and> InternalRewriteResolvedAstNoConvertErrorLocation unchecked_env example_options
        example_sequences (example_output \<lparr> output_properties := \<lparr> relevant_rewrites = {} \<rparr> \<rparr>)
       = (OkStatus,
          accumulate_rewriter_timer
            (initial_state (example_sequences(FallbackSequence := 0))
               (example_output \<lparr> output_properties := \<lparr> relevant_rewrites = {} \<rparr> \<rparr>)))"
  (is "?old \<and> ?n1 \<and> ?n2 \<and> ?n3 \<and> ?n4 \<and> ?n5 \<and> ?n6 \<and> ?n7")
proof -
  let ?st0 = "initial_state (example_sequences(FallbackSequence := 0)) example_output"
  let ?root = "nulliferror_call (ResolvedColumnRef TYPE_INT64 3)"
  let ?plainprops = "example_output \<lparr> output_properties := \<lparr> relevant_rewrites = {} \<rparr> \<rparr>"
  let ?R = "{REWRITE_NULLIFERROR_FUNCTION}"
  have root: "NodeFromAnalyzerOutput example_output
      = Some (nulliferror_call (ResolvedColumnRef TYPE_INT64 3))"
    "NodeFromAnalyzerOutput
       (example_output \<lparr> output_properties := \<lparr> relevant_rewrites = {REWRITE_ANONYMIZATION} \<rparr> \<rparr>)
      = Some (nulliferror_call (ResolvedColumnRef TYPE_INT64 3))"
    by (simp_all add: NodeFromAnalyzerOutput_def example_output_def)
  have env: "ZETASQL_DEBUG_MODE example_env"
    "FindRelevantRewriters example_env (Some (nulliferror_call (ResolvedColumnRef TYPE_INT64 3)))
       = Inr {REWRITE_NULLIFERROR_FUNCTION}"
    by (simp_all add: example_env_def example_scanner_def nulliferror_call_def)
  have props: "relevant_rewrites (output_properties example_output)
      = {REWRITE_NULLIFERROR_FUNCTION}"
    by (simp add: example_output_def)
  have off: "\<not> ZETASQL_DEBUG_MODE (example_env \<lparr> ZETASQL_DEBUG_MODE := False,
                       FLAGS_zetasql_disable_rewriter_checker := True \<rparr>)
     \<and> FLAGS_zetasql_disable_rewriter_checker (example_env \<lparr> ZETASQL_DEBUG_MODE := False,
                       FLAGS_zetasql_disable_rewriter_checker := True \<rparr>)"
    by simp
  have flag: "\<not> FLAGS_zetasql_disable_rewriter_checker example_env"
    by (simp add: example_env_def)
  have old: "?old"
    using root env props off flag
      relevance_synchronisation
        [of example_output "nulliferror_call (ResolvedColumnRef TYPE_INT64 3)" example_env
            "Error kInternal []" "{REWRITE_NULLIFERROR_FUNCTION}"
            "RetCheckFailure ''Resolved/Checker rewrites differ''" example_options
            example_sequences "{}" "{}" ?st0]
      relevance_synchronisation
        [of "example_output \<lparr> output_properties := \<lparr> relevant_rewrites = {REWRITE_ANONYMIZATION} \<rparr> \<rparr>"
            "nulliferror_call (ResolvedColumnRef TYPE_INT64 3)" example_env
            "Error kInternal []" "{REWRITE_NULLIFERROR_FUNCTION}"
            "RetCheckFailure ''Resolved/Checker rewrites differ''" example_options
            example_sequences "{}" "{}" ?st0]
      relevance_synchronisation
        [of "example_output \<lparr> output_properties := \<lparr> relevant_rewrites = {REWRITE_ANONYMIZATION} \<rparr> \<rparr>"
            "nulliferror_call (ResolvedColumnRef TYPE_INT64 3)"
            "example_env \<lparr> ZETASQL_DEBUG_MODE := False,
                       FLAGS_zetasql_disable_rewriter_checker := True \<rparr>"
            "Error kInternal []" "{REWRITE_NULLIFERROR_FUNCTION}"
            "RetCheckFailure ''Resolved/Checker rewrites differ''" example_options
            example_sequences "{}" "{}" ?st0]
    by simp
  have uoff: "\<not> ZETASQL_DEBUG_MODE unchecked_env
      \<and> FLAGS_zetasql_disable_rewriter_checker unchecked_env"
    by (simp add: unchecked_env_def)
  have uroot: "NodeFromAnalyzerOutput ?plainprops = Some ?root"
    by (simp add: NodeFromAnalyzerOutput_def example_output_def)
  have uprops: "relevant_rewrites (output_properties ?plainprops) = {}"
    by simp
  have lists: "leading_rewriters example_options = []
      \<and> trailing_rewriters example_options = []"
    by (simp add: example_options_def)
  have n2: ?n2
    by (simp add: example_options_def)
  have lead: "run_user_rewriters example_options (leading_rewriters example_options) ?st0
                = (OkStatus, ?st0)"
    by (simp add: example_options_def)
  note t1 = relevance_synchronisation
              [of example_output ?root unchecked_env "Error kInternal []" ?R
                  "Error kInternal []" example_options example_sequences "{}" ?R ?st0,
               THEN mp, OF root(1)]
  note t2 = relevance_synchronisation
              [of ?plainprops ?root unchecked_env "Error kInternal []" ?R
                  "Error kInternal []" example_options example_sequences "{}" "{}"
                  "initial_state (example_sequences(FallbackSequence := 0)) ?plainprops",
               THEN mp, OF uroot]
  have n1: ?n1
    using t1 [THEN conjunct2, THEN conjunct1, THEN mp, OF uoff] props by simp
  have n3: ?n3
    using t1 [THEN conjunct2, THEN conjunct2, THEN conjunct2, THEN conjunct1, THEN mp, OF n1] n2
    by simp
  have n4: ?n4
    by (rule unchecked_run)
  have h5: "detect_rewrites unchecked_env example_output = Inr ({}, ?R)
      \<and> enabled_rewrites example_options \<inter> ?R \<noteq> {}
      \<and> run_user_rewriters example_options (leading_rewriters example_options) ?st0
           = (OkStatus, ?st0)"
    using n1 n2 lead by (intro conjI) assumption+
  have n5: ?n5
    by (rule t1 [THEN conjunct2, THEN conjunct2, THEN conjunct2, THEN conjunct2, THEN mp,
                 OF h5, THEN conjunct1])
  have n6: ?n6
    using t2 [THEN conjunct2, THEN conjunct1, THEN mp, OF uoff] uprops by simp
  have n7: ?n7
    using t2 [THEN conjunct2, THEN conjunct2, THEN conjunct2, THEN conjunct1, THEN mp, OF n6]
          lists
    by simp
  show ?thesis
    using old n1 n2 n3 n4 n5 n6 n7 by (elim conjE) (intro conjI; assumption)
qed

section \<open>Invariants of the rewrite passes\<close>

lemma ensure_options_Some:
  "options_for_rewrite (snd (ensure_options_for_rewrite analyzer_options st))
     = Some (fst (ensure_options_for_rewrite analyzer_options st))"
  by (auto simp: ensure_options_for_rewrite_def split: option.splits prod.splits)

lemma call_Rewrite_last:
  "(snd (call_Rewrite call rewriter opts st))
     \<lparr> last_rewrite_result := last_rewrite_result (snd (call_Rewrite call rewriter opts st)) \<rparr>
   = snd (call_Rewrite call rewriter opts st)"
  by simp

lemma kept_user_call:
  assumes "kept_by_steps analyzer_options P" "P st" "options_for_rewrite st \<noteq> None"
  shows "P ((snd (call_Rewrite (UserRewrite name) rewriter opts st))
              \<lparr> last_rewrite_result := node \<rparr>)"
  using assms unfolding kept_by_steps_def by blast

lemma kept_builtin_call:
  assumes "kept_by_steps analyzer_options P" "P st" "options_for_rewrite st \<noteq> None"
  shows "P (stop_details_timer r
              ((snd (call_Rewrite (BuiltinRewrite r) rewriter opts (increment_count r st)))
                 \<lparr> last_rewrite_result := node \<rparr>))"
  using assms unfolding kept_by_steps_def by blast

lemma kept_ensure:
  assumes "kept_by_steps analyzer_options P" "P st"
  shows "P (snd (ensure_options_for_rewrite analyzer_options st))"
  using assms unfolding kept_by_steps_def by blast

lemma kept_accumulate:
  assumes "kept_by_steps analyzer_options P" "P st"
  shows "P (accumulate_rewriter_timer st)"
  using assms unfolding kept_by_steps_def by blast

lemma run_user_rewriters_keeps:
  assumes k: "kept_by_steps analyzer_options P"
  shows "P st \<Longrightarrow> P (snd (run_user_rewriters analyzer_options rewriters st))"
proof (induction rewriters arbitrary: st)
  case Nil
  then show ?case by simp
next
  case (Cons rewriter rest)
  obtain opts st1 where e: "ensure_options_for_rewrite analyzer_options st = (opts, st1)"
    by (cases "ensure_options_for_rewrite analyzer_options st")
  have i1: "P st1" and o1: "options_for_rewrite st1 \<noteq> None"
    using kept_ensure [OF k Cons.prems] ensure_options_Some [of analyzer_options st] e
    by simp_all
  obtain res st2 where
    c: "call_Rewrite (UserRewrite (Name rewriter)) rewriter opts st1 = (res, st2)"
    by (cases "call_Rewrite (UserRewrite (Name rewriter)) rewriter opts st1")
  have step: "P (st2 \<lparr> last_rewrite_result := node \<rparr>)" for node
    using kept_user_call [OF k i1 o1, where name = "Name rewriter" and rewriter = rewriter
            and opts = opts and node = node] c by simp
  show ?case
  proof (cases res)
    case (Inl err)
    have "P st2"
      using step [of "last_rewrite_result st2"] by simp
    then show ?thesis using e c Inl by simp
  next
    case (Inr node)
    then show ?thesis
      using e c step [of node] Cons.IH by simp
  qed
qed

lemma sweep_keeps:
  assumes k: "kept_by_steps analyzer_options P"
  shows "P st \<Longrightarrow> P (snd (sweep env analyzer_options rewrites_to_apply order st))"
proof (induction order arbitrary: st)
  case Nil
  then show ?case by simp
next
  case (Cons r rest)
  show ?case
  proof (cases "r \<in> rewrites_to_apply")
    case False
    then show ?thesis using Cons by simp
  next
    case True
    obtain opts st1 where e: "ensure_options_for_rewrite analyzer_options st = (opts, st1)"
      by (cases "ensure_options_for_rewrite analyzer_options st")
    have i1: "P st1" and o1: "options_for_rewrite st1 \<noteq> None"
      using kept_ensure [OF k Cons.prems] ensure_options_Some [of analyzer_options st] e
      by simp_all
    show ?thesis
    proof (cases "registry_Get env r")
      case None
      then show ?thesis using True e i1 by simp
    next
      case (Some rewriter)
      obtain res st2 where
        c: "call_Rewrite (BuiltinRewrite r) rewriter opts (increment_count r st1) = (res, st2)"
        by (cases "call_Rewrite (BuiltinRewrite r) rewriter opts (increment_count r st1)")
      have step: "P (stop_details_timer r (st2 \<lparr> last_rewrite_result := node \<rparr>))" for node
        using kept_builtin_call [OF k i1 o1, where r = r and rewriter = rewriter
                and opts = opts and node = node] c by simp
      have stop: "P (stop_details_timer r st2)"
        using step [of "last_rewrite_result st2"] by simp
      show ?thesis
      proof (cases res)
        case (Inl err)
        then show ?thesis using True e Some c stop by simp
      next
        case (Inr node)
        show ?thesis
        proof (cases node)
          case None
          then show ?thesis using True e Some c stop Inr by simp
        next
          case (Some n)
          then show ?thesis
            using True e \<open>registry_Get env r = Some rewriter\<close> c Inr step [of "Some n"] Cons.IH
            by simp
        qed
      qed
    qed
  qed
qed

lemma convergence_loop_keeps:
  assumes k: "kept_by_steps analyzer_options P"
  shows "P st \<Longrightarrow>
         P (snd (convergence_loop env analyzer_options iterations rewrites_to_apply st))"
  using k
proof (induction env analyzer_options iterations rewrites_to_apply st
       rule: convergence_loop.induct)
  case (1 env analyzer_options iterations rewrites_to_apply st)
  note k = "1.prems"(2)
  note p = "1.prems"(1)
  show ?case
  proof (cases "iterations + 1 > kMaxIterations")
    case True
    then show ?thesis
      using p by (subst convergence_loop.simps) simp
  next
    case False
    obtain status st1 where
      s: "sweep env analyzer_options rewrites_to_apply (registration_order env) st = (status, st1)"
      by (cases "sweep env analyzer_options rewrites_to_apply (registration_order env) st")
    have i1: "P st1"
      using sweep_keeps [OF k p, where env = env and rewrites_to_apply = rewrites_to_apply
              and order = "registration_order env"] s by simp
    show ?thesis
    proof (cases status)
      case (Some e)
      then show ?thesis using False s i1 by (subst convergence_loop.simps) simp
    next
      case None
      show ?thesis
      proof (cases "recompute_rewrites_to_apply env analyzer_options (last_rewrite_result st1)")
        case (Inl e)
        then show ?thesis using False s None i1 by (subst convergence_loop.simps) simp
      next
        case (Inr R')
        show ?thesis
        proof (cases "R' = {}")
          case True
          then show ?thesis
            using False s None Inr i1 by (subst convergence_loop.simps) simp
        next
          case nonempty: False
          have "P (snd (convergence_loop env analyzer_options (iterations + 1) R' st1))"
            using "1.IH" False s None Inr nonempty i1 k by auto
          then show ?thesis
            using False s None Inr nonempty by (subst convergence_loop.simps) simp
        qed
      qed
    qed
  qed
qed

lemma rewrite_passes_keeps:
  assumes k: "kept_by_steps analyzer_options P" and inv: "P st"
  shows "P (snd (rewrite_passes env analyzer_options rewrites_to_apply st))"
proof -
  obtain s1 st1 where
    l: "run_user_rewriters analyzer_options (leading_rewriters analyzer_options) st = (s1, st1)"
    by (cases "run_user_rewriters analyzer_options (leading_rewriters analyzer_options) st")
  have i1: "P st1"
    using run_user_rewriters_keeps [OF k inv, where rewriters = "leading_rewriters analyzer_options"]
          l by simp
  show ?thesis
  proof (cases s1)
    case (Some e)
    then show ?thesis using l i1 by (simp add: rewrite_passes_def)
  next
    case None
    obtain s2 st2 where
      c: "(if rewrites_to_apply \<noteq> {}
           then convergence_loop env analyzer_options 0 rewrites_to_apply st1
           else (OkStatus, st1)) = (s2, st2)"
      by (cases "(if rewrites_to_apply \<noteq> {}
           then convergence_loop env analyzer_options 0 rewrites_to_apply st1
           else (OkStatus, st1))")
    have i2: "P st2"
      using convergence_loop_keeps [OF k i1, where env = env and iterations = 0
              and rewrites_to_apply = rewrites_to_apply] c i1
      by (auto split: if_splits)
    show ?thesis
    proof (cases s2)
      case (Some e)
      then show ?thesis using l None c i2 by (simp add: rewrite_passes_def)
    next
      case n2: None
      have "P (snd (run_user_rewriters analyzer_options (trailing_rewriters analyzer_options)
                      (accumulate_rewriter_timer st2)))"
        using run_user_rewriters_keeps [OF k kept_accumulate [OF k i2]] by simp
      then show ?thesis using l None c n2 by (simp add: rewrite_passes_def)
    qed
  qed
qed

lemma driver_invariant_initial:
  "driver_invariant output (initial_state seqs output)"
  by (simp add: driver_invariant_def initial_state_def)

lemma driver_invariant_kept:
  "kept_by_steps analyzer_options (driver_invariant output)"
  unfolding kept_by_steps_def
proof (intro conjI allI impI)
  fix st :: "'a DriverState"
  assume "driver_invariant output st"
  then show "driver_invariant output (snd (ensure_options_for_rewrite analyzer_options st))"
    by (auto simp: ensure_options_for_rewrite_def driver_invariant_def release_output_node_def
             split: option.splits prod.splits if_splits)
next
  fix st :: "'a DriverState" and name rewriter opts node
  assume "driver_invariant output st \<and> options_for_rewrite st \<noteq> None"
  then show "driver_invariant output
     ((snd (call_Rewrite (UserRewrite name) rewriter opts st)) \<lparr> last_rewrite_result := node \<rparr>)"
    by (auto simp: call_Rewrite_def driver_invariant_def split: prod.splits option.splits)
next
  fix st :: "'a DriverState" and r rewriter opts node
  assume "driver_invariant output st \<and> options_for_rewrite st \<noteq> None"
  then show "driver_invariant output
     (stop_details_timer r
        ((snd (call_Rewrite (BuiltinRewrite r) rewriter opts (increment_count r st)))
           \<lparr> last_rewrite_result := node \<rparr>))"
    by (auto simp: call_Rewrite_def driver_invariant_def stop_details_timer_def
          increment_count_def map_runtime_info_def split: prod.splits option.splits)
next
  fix st :: "'a DriverState"
  assume "driver_invariant output st"
  then show "driver_invariant output (accumulate_rewriter_timer st)"
    by (auto simp: driver_invariant_def accumulate_rewriter_timer_def map_runtime_info_def
             split: option.splits)
qed

lemma options_kept:
  "kept_by_steps analyzer_options (\<lambda>st. options_for_rewrite st \<noteq> None)"
  unfolding kept_by_steps_def
  by (auto simp: ensure_options_for_rewrite_def call_Rewrite_def stop_details_timer_def
        increment_count_def map_runtime_info_def accumulate_rewriter_timer_def
        split: option.splits prod.splits)

section \<open>The shape of a run of the inner driver\<close>

lemma rewrite_passes_nothing_to_do:
  "leading_rewriters analyzer_options = [] \<Longrightarrow> trailing_rewriters analyzer_options = [] \<Longrightarrow>
   rewrite_passes env analyzer_options {} st = (OkStatus, accumulate_rewriter_timer st)"
  by (simp add: rewrite_passes_def)

lemma NoConvert_cases [case_names detect_fail early pass_fail installed]:
  fixes env :: "'n Collaborators"
  defines "st0 \<equiv> \<lambda>seqs out. initial_state (seqs(FallbackSequence := 0)) out"
  obtains e where "detect_rewrites env out = Inl e"
      "InternalRewriteResolvedAstNoConvertErrorLocation env analyzer_options seqs out
         = (Some e, st0 seqs out)"
  | C D where "detect_rewrites env out = Inr (C, D)"
      "enabled_rewrites analyzer_options \<inter> D = {}"
      "leading_rewriters analyzer_options = []" "trailing_rewriters analyzer_options = []"
      "InternalRewriteResolvedAstNoConvertErrorLocation env analyzer_options seqs out
         = (OkStatus, accumulate_rewriter_timer (st0 seqs out))"
  | C D e st1 where "detect_rewrites env out = Inr (C, D)"
      "rewrite_passes env analyzer_options (enabled_rewrites analyzer_options \<inter> D)
         (st0 seqs out) = (Some e, st1)"
      "InternalRewriteResolvedAstNoConvertErrorLocation env analyzer_options seqs out
         = (Some e, st1)"
  | C D st1 s st2 where "detect_rewrites env out = Inr (C, D)"
      "rewrite_passes env analyzer_options (enabled_rewrites analyzer_options \<inter> D)
         (st0 seqs out) = (OkStatus, st1)"
      "install_result env analyzer_options st1 = (s, st2)"
      "InternalRewriteResolvedAstNoConvertErrorLocation env analyzer_options seqs out
         = (if s \<noteq> OkStatus then s
            else if resolved_statement (analyzer_output st2) \<noteq> None
                    \<or> resolved_expr (analyzer_output st2) \<noteq> None
            then OkStatus
            else Some (RetCheckFailure
                   ''resolved_statement() != nullptr || resolved_expr() != nullptr''),
            st2)"
proof (cases "detect_rewrites env out")
  case (Inl e)
  then show ?thesis
    using that(1) [of e]
    by (simp add: InternalRewriteResolvedAstNoConvertErrorLocation_def st0_def)
next
  case (Inr cd)
  obtain C D where cd: "cd = (C, D)" by (cases cd)
  show ?thesis
  proof (cases "enabled_rewrites analyzer_options \<inter> D = {}
                \<and> leading_rewriters analyzer_options = []
                \<and> trailing_rewriters analyzer_options = []")
    case True
    then show ?thesis
      using that(2) [of C D] Inr cd
      by (auto simp: InternalRewriteResolvedAstNoConvertErrorLocation_def st0_def Let_def)
  next
    case False
    then have not_early: "\<not> (D = {} \<and> leading_rewriters analyzer_options = []
                \<and> trailing_rewriters analyzer_options = [])"
      by auto
    obtain s1 st1 where
      p: "rewrite_passes env analyzer_options (enabled_rewrites analyzer_options \<inter> D)
            (st0 seqs out) = (s1, st1)"
      by (cases "rewrite_passes env analyzer_options (enabled_rewrites analyzer_options \<inter> D)
            (st0 seqs out)")
    show ?thesis
    proof (cases s1)
      case (Some e)
      then show ?thesis
        using that(3) [of C D e st1] Inr cd False not_early p
        by (auto simp: InternalRewriteResolvedAstNoConvertErrorLocation_def st0_def Let_def)
    next
      case None
      obtain s st2 where i: "install_result env analyzer_options st1 = (s, st2)"
        by (cases "install_result env analyzer_options st1")
      show ?thesis
        using that(4) [of C D st1 s st2] Inr cd False not_early p None i
        by (cases s)
           (auto simp: InternalRewriteResolvedAstNoConvertErrorLocation_def st0_def Let_def)
    qed
  qed
qed

lemma stop_validator_timer_fields [simp]:
  "rewriters_details (runtime_info (analyzer_output (stop_validator_timer st)))
     = rewriters_details (runtime_info (analyzer_output st))"
  "rewriter_calls (stop_validator_timer st) = rewriter_calls st"
  "resolved_statement (analyzer_output (stop_validator_timer st))
     = resolved_statement (analyzer_output st)"
  "resolved_expr (analyzer_output (stop_validator_timer st))
     = resolved_expr (analyzer_output st)"
  by (simp_all add: stop_validator_timer_def map_runtime_info_def)

lemma mark_fields_accessed_fields [simp]:
  "rewriters_details (runtime_info (analyzer_output (mark_fields_accessed analyzer_options st)))
     = rewriters_details (runtime_info (analyzer_output st))"
  "rewriter_calls (mark_fields_accessed analyzer_options st) = rewriter_calls st"
  "resolved_statement (analyzer_output (mark_fields_accessed analyzer_options st))
     = resolved_statement (analyzer_output st)"
  "resolved_expr (analyzer_output (mark_fields_accessed analyzer_options st))
     = resolved_expr (analyzer_output st)"
  by (simp_all add: mark_fields_accessed_def)

lemma Update_fields:
  "Update is_statement node s output = Inr output' \<Longrightarrow>
   runtime_info output' = runtime_info output
   \<and> (\<exists>n. node = Some n
        \<and> resolved_statement output'
            = (if is_statement n then Some n else resolved_statement output)
        \<and> resolved_expr output' = (if is_statement n then resolved_expr output else Some n))"
  by (cases node) (auto simp: Update_def split: if_splits)

lemma install_result_details:
  "rewriters_details (runtime_info (analyzer_output (snd (install_result env analyzer_options st))))
     = rewriters_details (runtime_info (analyzer_output st))
   \<and> rewriter_calls (snd (install_result env analyzer_options st)) = rewriter_calls st"
proof (cases "options_for_rewrite st")
  case None
  then show ?thesis by (simp add: install_result_def)
next
  case (Some opts)
  show ?thesis
  proof (cases "column_id_sequence_number opts")
    case None
    then show ?thesis using Some by (simp add: install_result_def)
  next
    case (Some seq)
    show ?thesis
    proof (cases "Update (IsStatement env) (last_rewrite_result st) (sequences st seq)
                    (analyzer_output st)")
      case (Inl e)
      then show ?thesis
        using \<open>options_for_rewrite st = Some opts\<close> Some by (simp add: install_result_def)
    next
      case (Inr output')
      have "runtime_info output' = runtime_info (analyzer_output st)"
        using Update_fields [OF Inr] by simp
      then show ?thesis
        using \<open>options_for_rewrite st = Some opts\<close> Some Inr
        by (simp add: install_result_def Let_def split: option.splits)
    qed
  qed
qed

lemma install_result_None:
  "options_for_rewrite st = None \<Longrightarrow> install_result env analyzer_options st = (OkStatus, st)"
  by (simp add: install_result_def)

lemma install_result_Some:
  assumes o: "options_for_rewrite st \<noteq> None"
    and stmt: "resolved_statement (analyzer_output st) = None"
    and ok: "install_result env analyzer_options st = (OkStatus, st2)"
  shows "\<exists>n. last_rewrite_result st = Some n
           \<and> resolved_statement (analyzer_output st2) = (if IsStatement env n then Some n else None)
           \<and> resolved_expr (analyzer_output st2)
               = (if IsStatement env n then resolved_expr (analyzer_output st) else Some n)"
proof -
  from o obtain opts where opts: "options_for_rewrite st = Some opts" by auto
  from ok opts obtain seq where seq: "column_id_sequence_number opts = Some seq"
    by (cases "column_id_sequence_number opts") (auto simp: install_result_def)
  from ok opts seq obtain output' where
    u: "Update (IsStatement env) (last_rewrite_result st) (sequences st seq)
          (analyzer_output st) = Inr output'"
    by (cases "Update (IsStatement env) (last_rewrite_result st) (sequences st seq)
          (analyzer_output st)") (auto simp: install_result_def)
  have roots: "resolved_statement (analyzer_output st2) = resolved_statement output'
      \<and> resolved_expr (analyzer_output st2) = resolved_expr output'"
    using ok opts seq u
    by (auto simp: install_result_def Let_def split: option.splits if_splits)
  show ?thesis
    using Update_fields [OF u] roots stmt by auto
qed

lemma passes_invariant:
  "driver_invariant output
     (snd (rewrite_passes env analyzer_options rewrites_to_apply
             (initial_state seqs output)))"
  by (rule rewrite_passes_keeps [OF driver_invariant_kept driver_invariant_initial])

lemma invariant_no_tree_installed:
  "driver_invariant output st \<Longrightarrow> no_tree_installed output (analyzer_output st)"
  by (auto simp: driver_invariant_def no_tree_installed_def split: option.splits if_splits)

lemma NoConvert_pass_fail:
  assumes "detect_rewrites env out = Inr (C, D)"
    and "rewrite_passes env analyzer_options (enabled_rewrites analyzer_options \<inter> D)
           (initial_state (seqs(FallbackSequence := 0)) out) = (Some e, st1)"
  shows "InternalRewriteResolvedAstNoConvertErrorLocation env analyzer_options seqs out
           = (Some e, st1)"
proof (cases rule: NoConvert_cases [where env = env and out = out
         and analyzer_options = analyzer_options and seqs = seqs])
  case (detect_fail e)
  then show ?thesis using assms by simp
next
  case (early C' D')
  then show ?thesis using assms by (simp add: rewrite_passes_nothing_to_do)
next
  case (pass_fail C' D' e' st1')
  then show ?thesis using assms by simp
next
  case (installed C' D' st1' s st2)
  then show ?thesis using assms by simp
qed

lemma detect_rewrites_root:
  "detect_rewrites env output = Inr x \<Longrightarrow>
   resolved_statement output \<noteq> None \<or> resolved_expr output \<noteq> None"
  by (auto simp: detect_rewrites_def NodeFromAnalyzerOutput_def Let_def split: if_splits)

lemma accumulate_rewriter_timer_fields [simp]:
  "rewriter_calls (accumulate_rewriter_timer st) = rewriter_calls st"
  "last_rewrite_result (accumulate_rewriter_timer st) = last_rewrite_result st"
  "options_for_rewrite (accumulate_rewriter_timer st) = options_for_rewrite st"
  "sequences (accumulate_rewriter_timer st) = sequences st"
  "resolved_statement (analyzer_output (accumulate_rewriter_timer st))
     = resolved_statement (analyzer_output st)"
  "resolved_expr (analyzer_output (accumulate_rewriter_timer st))
     = resolved_expr (analyzer_output st)"
  "max_column_id (analyzer_output (accumulate_rewriter_timer st))
     = max_column_id (analyzer_output st)"
  "output_properties (analyzer_output (accumulate_rewriter_timer st))
     = output_properties (analyzer_output st)"
  by (simp_all add: accumulate_rewriter_timer_def map_runtime_info_def)

lemma built_options_kept:
  "kept_by_steps analyzer_options
     (\<lambda>st. case options_for_rewrite st of
             None \<Rightarrow> True
           | Some opts \<Rightarrow>
               validate_resolved_ast opts = validate_resolved_ast analyzer_options
               \<and> column_id_sequence_number opts \<noteq> None)"
  unfolding kept_by_steps_def
  by (auto simp: ensure_options_for_rewrite_def AnalyzerOptionsForRewrite_def Let_def
        call_Rewrite_def stop_details_timer_def increment_count_def map_runtime_info_def
        accumulate_rewriter_timer_def
        split: option.splits prod.splits if_splits)

lemma install_result_validator_failure:
  assumes o: "options_for_rewrite st = Some opts"
    and v: "validate_resolved_ast opts"
    and q: "column_id_sequence_number opts \<noteq> None"
    and l: "last_rewrite_result st = Some n"
    and s: "resolved_statement (analyzer_output st) = None"
    and r: "(if IsStatement env n
             then ValidateResolvedStatement env (language analyzer_options)
                    (allowed_hints_and_options analyzer_options) n
             else ValidateStandaloneResolvedExpr env (language analyzer_options)
                    (allowed_hints_and_options analyzer_options) n) = Some e"
  shows "fst (install_result env analyzer_options st) = Some e
         \<and> NodeFromAnalyzerOutput (analyzer_output (snd (install_result env analyzer_options st)))
             = Some n"
proof -
  from q obtain seq where seq: "column_id_sequence_number opts = Some seq" by auto
  show ?thesis
  proof (cases "IsStatement env n")
    case True
    then show ?thesis
      using o v seq l s r
      by (simp add: install_result_def Update_def Let_def validate_output_def
            NodeFromAnalyzerOutput_def)
  next
    case False
    then show ?thesis
      using o v seq l s r
      by (simp add: install_result_def Update_def Let_def validate_output_def
            NodeFromAnalyzerOutput_def)
  qed
qed

lemma NoConvert_validator_failure:
  assumes d: "detect_rewrites env out = Inr (checker, detected)"
    and p: "rewrite_passes env analyzer_options (enabled_rewrites analyzer_options \<inter> detected)
              (initial_state (seqs(FallbackSequence := 0)) out) = (OkStatus, st3)"
    and o: "options_for_rewrite st3 \<noteq> None"
    and l: "last_rewrite_result st3 = Some n"
    and v: "validate_resolved_ast analyzer_options"
    and r: "(if IsStatement env n
             then ValidateResolvedStatement env (language analyzer_options)
                    (allowed_hints_and_options analyzer_options) n
             else ValidateStandaloneResolvedExpr env (language analyzer_options)
                    (allowed_hints_and_options analyzer_options) n) = Some e"
  shows "fst (InternalRewriteResolvedAstNoConvertErrorLocation env analyzer_options seqs out)
           = Some e
         \<and> NodeFromAnalyzerOutput (analyzer_output
               (snd (InternalRewriteResolvedAstNoConvertErrorLocation env analyzer_options seqs
                  out))) = Some n"
proof -
  let ?R = "enabled_rewrites analyzer_options \<inter> detected"
  let ?st0 = "initial_state (seqs(FallbackSequence := 0)) out"
  from o obtain opts where opts: "options_for_rewrite st3 = Some opts" by auto
  have "case options_for_rewrite (snd (rewrite_passes env analyzer_options ?R ?st0)) of
          None \<Rightarrow> True
        | Some opts \<Rightarrow>
            validate_resolved_ast opts = validate_resolved_ast analyzer_options
            \<and> column_id_sequence_number opts \<noteq> None"
    by (rule rewrite_passes_keeps [OF built_options_kept]) (simp add: initial_state_def)
  then have b: "validate_resolved_ast opts" "column_id_sequence_number opts \<noteq> None"
    using p opts v by simp_all
  have inv: "driver_invariant out st3"
    using passes_invariant [of out env analyzer_options ?R "seqs(FallbackSequence := 0)"] p
    by simp
  have s: "resolved_statement (analyzer_output st3) = None"
    using inv opts by (simp add: driver_invariant_def)
  note i = install_result_validator_failure [OF opts b l s r]
  show ?thesis
  proof (cases rule: NoConvert_cases [where env = env and out = out
           and analyzer_options = analyzer_options and seqs = seqs])
    case (detect_fail e')
    then show ?thesis using d by simp
  next
    case (early C D)
    then have "st3 = accumulate_rewriter_timer ?st0"
      using d p by (simp add: rewrite_passes_nothing_to_do)
    then show ?thesis using o by (simp add: initial_state_def)
  next
    case (pass_fail C D e' st1)
    then show ?thesis using d p by simp
  next
    case (installed C D st1 s' st2)
    then have "st1 = st3" using d p by simp
    then show ?thesis using installed i by simp
  qed
qed

section \<open>Runs on the concrete inputs\<close>

lemma ex_run_status:
  "fst (InternalRewriteResolvedAstNoConvertErrorLocation example_env example_options
          example_sequences example_output) = OkStatus"
  by code_simp

lemma ex_run_calls:
  "rewriter_calls (snd (InternalRewriteResolvedAstNoConvertErrorLocation example_env
      example_options example_sequences example_output))
     = [BuiltinRewrite REWRITE_NULLIFERROR_FUNCTION]"
  by code_simp

lemma ex_run_expr:
  "resolved_expr (analyzer_output (snd (InternalRewriteResolvedAstNoConvertErrorLocation
      example_env example_options example_sequences example_output)))
     = Some (ResolvedFunctionCall TYPE_INT64
               \<lparr> function_name = ''iferror'', IsZetaSQLBuiltin = True \<rparr>
               \<lparr> context_id = FN_IFERROR \<rparr>
               [ResolvedColumnRef TYPE_INT64 3,
                ResolvedLiteral TYPE_INT64 (Null TYPE_INT64) True] [] DEFAULT_ERROR_MODE)"
  by code_simp

lemma ex_run_statement:
  "resolved_statement (analyzer_output (snd (InternalRewriteResolvedAstNoConvertErrorLocation
      example_env example_options example_sequences example_output))) = None"
  by code_simp

lemma wrapping_run_calls:
  "rewriter_calls (snd (InternalRewriteResolvedAstNoConvertErrorLocation example_env
      wrapping_options example_sequences example_output))
     = [UserRewrite ''WrappingRewriter'', BuiltinRewrite REWRITE_NULLIFERROR_FUNCTION,
        UserRewrite ''WrappingRewriter'']"
  by code_simp

lemma plain_detect:
  "detect_rewrites example_env plain_output = Inr ({}, {})"
  by code_simp

lemma ex_detect:
  "detect_rewrites example_env example_output
     = Inr ({REWRITE_NULLIFERROR_FUNCTION}, {REWRITE_NULLIFERROR_FUNCTION})"
  by code_simp

lemma looping_detect:
  "detect_rewrites looping_env example_output = Inr ({REWRITE_OTHER 0}, {REWRITE_OTHER 0})"
  by code_simp

lemma absent_detect:
  "detect_rewrites example_env (example_output \<lparr> resolved_expr := None \<rparr>)
     = Inl (RetCheckFailure ''rewrite_input != nullptr'')"
  by code_simp

lemma hinted_detect:
  "detect_rewrites example_env (example_output \<lparr> resolved_expr := Some hinted_nulliferror_call \<rparr>)
     = Inr ({REWRITE_NULLIFERROR_FUNCTION}, {REWRITE_NULLIFERROR_FUNCTION})"
  by code_simp

lemma hinted_passes:
  "fst (rewrite_passes example_env example_options
          (enabled_rewrites example_options \<inter> {REWRITE_NULLIFERROR_FUNCTION})
          (initial_state (example_sequences(FallbackSequence := 0))
             (example_output \<lparr> resolved_expr := Some hinted_nulliferror_call \<rparr>)))
     = Some (Error kUnimplemented ''The NULLIFERROR() operator does not support hints.'')"
  by code_simp

lemma ex_sweep:
  "fst (sweep example_env example_options {REWRITE_NULLIFERROR_FUNCTION}
          (registration_order example_env)
          (initial_state (example_sequences(FallbackSequence := 0)) example_output)) = OkStatus
   \<and> FindRelevantRewriters example_env (last_rewrite_result
        (snd (sweep example_env example_options {REWRITE_NULLIFERROR_FUNCTION}
          (registration_order example_env)
          (initial_state (example_sequences(FallbackSequence := 0)) example_output)))) = Inr {}"
  by code_simp

lemma ex_top_status:
  "fst (InternalRewriteResolvedAst example_env example_options ''SELECT NULLIFERROR(x)''
          example_sequences example_output) = OkStatus"
  by code_simp

lemma plain_top_status:
  "fst (InternalRewriteResolvedAst example_env example_options ''SELECT x''
          example_sequences plain_output) = OkStatus"
  by code_simp

lemma rejecting_detect:
  "detect_rewrites rejecting_validator_env example_output
     = Inr ({REWRITE_NULLIFERROR_FUNCTION}, {REWRITE_NULLIFERROR_FUNCTION})"
  by code_simp

lemma rejecting_passes:
  "fst (rewrite_passes rejecting_validator_env example_options
          (enabled_rewrites example_options \<inter> {REWRITE_NULLIFERROR_FUNCTION})
          (initial_state (example_sequences(FallbackSequence := 0)) example_output)) = OkStatus
   \<and> last_rewrite_result (snd (rewrite_passes rejecting_validator_env example_options
          (enabled_rewrites example_options \<inter> {REWRITE_NULLIFERROR_FUNCTION})
          (initial_state (example_sequences(FallbackSequence := 0)) example_output)))
       = Some rewritten_example
   \<and> rewriter_calls (snd (rewrite_passes rejecting_validator_env example_options
          (enabled_rewrites example_options \<inter> {REWRITE_NULLIFERROR_FUNCTION})
          (initial_state (example_sequences(FallbackSequence := 0)) example_output)))
       = [BuiltinRewrite REWRITE_NULLIFERROR_FUNCTION]"
  by code_simp

lemma rejecting_run:
  "fst (InternalRewriteResolvedAstNoConvertErrorLocation rejecting_validator_env
          example_options example_sequences example_output)
     = Some (Error kInvalidArgument ''rejected by validator'')
   \<and> resolved_expr (analyzer_output
        (snd (InternalRewriteResolvedAstNoConvertErrorLocation rejecting_validator_env
                example_options example_sequences example_output))) = Some rewritten_example"
  by code_simp

section \<open>The early exit\<close>

text \<open>
  Claim C6: when relevance detection succeeds, the enabled rules and the detected set
  have no rule in common and there is neither a leading nor a trailing rewriter, the
  inner driver returns success after stopping the overall timer: no rewriter is called,
  and the statement, the expression, \<open>max_column_id\<close> and the output properties of
  the output are what they were. Without a pre-rewrite callback the same holds of the
  entry point, whose status is OK or the conversion of OK.
\<close>

theorem early_exit:
  "detect_rewrites env output = Inr (checker, detected)
   \<and> enabled_rewrites analyzer_options \<inter> detected = {}
   \<and> leading_rewriters analyzer_options = []
   \<and> trailing_rewriters analyzer_options = []
   \<longrightarrow>
     InternalRewriteResolvedAstNoConvertErrorLocation env analyzer_options seqs output
       = (OkStatus, accumulate_rewriter_timer (initial_state (seqs(FallbackSequence := 0)) output))
     \<and> rewriter_calls (snd (InternalRewriteResolvedAstNoConvertErrorLocation env
          analyzer_options seqs output)) = []
     \<and> resolved_statement (analyzer_output (snd (InternalRewriteResolvedAstNoConvertErrorLocation
          env analyzer_options seqs output))) = resolved_statement output
     \<and> resolved_expr (analyzer_output (snd (InternalRewriteResolvedAstNoConvertErrorLocation
          env analyzer_options seqs output))) = resolved_expr output
     \<and> max_column_id (analyzer_output (snd (InternalRewriteResolvedAstNoConvertErrorLocation
          env analyzer_options seqs output))) = max_column_id output
     \<and> output_properties (analyzer_output (snd (InternalRewriteResolvedAstNoConvertErrorLocation
          env analyzer_options seqs output))) = output_properties output
     \<and> (pre_rewrite_callback analyzer_options = None \<longrightarrow>
          fst (InternalRewriteResolvedAst env analyzer_options sql seqs output)
            = (if enabled_rewrites analyzer_options = {} then OkStatus
               else ConvertInternalErrorLocationAndAdjustErrorString env
                      (error_message_mode analyzer_options)
                      (attach_error_location_payload analyzer_options) sql OkStatus)
          \<and> rewriter_calls (snd (InternalRewriteResolvedAst env analyzer_options sql seqs
               output)) = []
          \<and> resolved_statement (analyzer_output (snd (InternalRewriteResolvedAst env
               analyzer_options sql seqs output))) = resolved_statement output
          \<and> resolved_expr (analyzer_output (snd (InternalRewriteResolvedAst env
               analyzer_options sql seqs output))) = resolved_expr output
          \<and> max_column_id (analyzer_output (snd (InternalRewriteResolvedAst env
               analyzer_options sql seqs output))) = max_column_id output
          \<and> output_properties (analyzer_output (snd (InternalRewriteResolvedAst env
               analyzer_options sql seqs output))) = output_properties output)"
proof (intro impI)
  assume h: "detect_rewrites env output = Inr (checker, detected)
   \<and> enabled_rewrites analyzer_options \<inter> detected = {}
   \<and> leading_rewriters analyzer_options = []
   \<and> trailing_rewriters analyzer_options = []"
  have inner: "InternalRewriteResolvedAstNoConvertErrorLocation env analyzer_options seqs output
       = (OkStatus, accumulate_rewriter_timer (initial_state (seqs(FallbackSequence := 0)) output))"
    using h by (auto simp: InternalRewriteResolvedAstNoConvertErrorLocation_def Let_def)
  have root: "resolved_statement output \<noteq> None \<or> resolved_expr output \<noteq> None"
    using h detect_rewrites_root by blast
  have init: "rewriter_calls (initial_state s output) = []"
    "analyzer_output (initial_state s output) = output" for s
    by (simp_all add: initial_state_def)
  show "InternalRewriteResolvedAstNoConvertErrorLocation env analyzer_options seqs output
       = (OkStatus, accumulate_rewriter_timer (initial_state (seqs(FallbackSequence := 0)) output))
     \<and> rewriter_calls (snd (InternalRewriteResolvedAstNoConvertErrorLocation env
          analyzer_options seqs output)) = []
     \<and> resolved_statement (analyzer_output (snd (InternalRewriteResolvedAstNoConvertErrorLocation
          env analyzer_options seqs output))) = resolved_statement output
     \<and> resolved_expr (analyzer_output (snd (InternalRewriteResolvedAstNoConvertErrorLocation
          env analyzer_options seqs output))) = resolved_expr output
     \<and> max_column_id (analyzer_output (snd (InternalRewriteResolvedAstNoConvertErrorLocation
          env analyzer_options seqs output))) = max_column_id output
     \<and> output_properties (analyzer_output (snd (InternalRewriteResolvedAstNoConvertErrorLocation
          env analyzer_options seqs output))) = output_properties output
     \<and> (pre_rewrite_callback analyzer_options = None \<longrightarrow>
          fst (InternalRewriteResolvedAst env analyzer_options sql seqs output)
            = (if enabled_rewrites analyzer_options = {} then OkStatus
               else ConvertInternalErrorLocationAndAdjustErrorString env
                      (error_message_mode analyzer_options)
                      (attach_error_location_payload analyzer_options) sql OkStatus)
          \<and> rewriter_calls (snd (InternalRewriteResolvedAst env analyzer_options sql seqs
               output)) = []
          \<and> resolved_statement (analyzer_output (snd (InternalRewriteResolvedAst env
               analyzer_options sql seqs output))) = resolved_statement output
          \<and> resolved_expr (analyzer_output (snd (InternalRewriteResolvedAst env
               analyzer_options sql seqs output))) = resolved_expr output
          \<and> max_column_id (analyzer_output (snd (InternalRewriteResolvedAst env
               analyzer_options sql seqs output))) = max_column_id output
          \<and> output_properties (analyzer_output (snd (InternalRewriteResolvedAst env
               analyzer_options sql seqs output))) = output_properties output)"
    using root by (auto simp: inner init InternalRewriteResolvedAst_def)
qed

theorem early_exit_witness:
  "detect_rewrites example_env plain_output = Inr ({}, {})
   \<and> enabled_rewrites example_options \<inter> {} = {}
   \<and> leading_rewriters example_options = []
   \<and> trailing_rewriters example_options = []
   \<and> InternalRewriteResolvedAstNoConvertErrorLocation example_env example_options
        example_sequences plain_output
       = (OkStatus, accumulate_rewriter_timer
            (initial_state (example_sequences(FallbackSequence := 0)) plain_output))
   \<and> rewriter_calls (snd (InternalRewriteResolvedAstNoConvertErrorLocation example_env
        example_options example_sequences plain_output)) = []
   \<and> resolved_expr (analyzer_output (snd (InternalRewriteResolvedAstNoConvertErrorLocation
        example_env example_options example_sequences plain_output)))
       = Some (ResolvedColumnRef TYPE_INT64 3)
   \<and> max_column_id (analyzer_output (snd (InternalRewriteResolvedAstNoConvertErrorLocation
        example_env example_options example_sequences plain_output))) = 3
   \<and> output_properties (analyzer_output (snd (InternalRewriteResolvedAstNoConvertErrorLocation
        example_env example_options example_sequences plain_output)))
       = \<lparr> relevant_rewrites = {} \<rparr>
   \<and> fst (InternalRewriteResolvedAst example_env example_options ''SELECT x''
            example_sequences plain_output) = OkStatus
   \<and> rewriter_calls (snd (InternalRewriteResolvedAst example_env example_options ''SELECT x''
        example_sequences plain_output)) = []
   \<and> resolved_expr (analyzer_output (snd (InternalRewriteResolvedAst example_env
        example_options ''SELECT x'' example_sequences plain_output)))
       = Some (ResolvedColumnRef TYPE_INT64 3)"
proof -
  have pre: "enabled_rewrites example_options \<inter> {} = {}
      \<and> leading_rewriters example_options = []
      \<and> trailing_rewriters example_options = []
      \<and> pre_rewrite_callback example_options = None"
    by (simp add: example_options_def)
  have out: "resolved_expr plain_output = Some (ResolvedColumnRef TYPE_INT64 3)
      \<and> max_column_id plain_output = 3
      \<and> output_properties plain_output = \<lparr> relevant_rewrites = {} \<rparr>"
    by (simp add: plain_output_def example_output_def)
  show ?thesis
    using early_exit [of example_env plain_output "{}" "{}" example_options example_sequences
            "''SELECT x''"]
          plain_detect pre out plain_top_status
    by (simp add: initial_state_def)
qed

section \<open>The runtime details of the rules\<close>

lemma run_user_rewriters_runtime_info:
  "runtime_info (analyzer_output (snd (run_user_rewriters analyzer_options rewriters st)))
     = runtime_info (analyzer_output st)
   \<and> count_list (rewriter_calls (snd (run_user_rewriters analyzer_options rewriters st)))
        (BuiltinRewrite r)
     = count_list (rewriter_calls st) (BuiltinRewrite r)"
proof (induction rewriters arbitrary: st)
  case Nil
  then show ?case by simp
next
  case (Cons rewriter rest)
  obtain opts st1 where e: "ensure_options_for_rewrite analyzer_options st = (opts, st1)"
    by (cases "ensure_options_for_rewrite analyzer_options st")
  then have s1: "runtime_info (analyzer_output st1) = runtime_info (analyzer_output st)
      \<and> rewriter_calls st1 = rewriter_calls st"
    by (auto simp: ensure_options_for_rewrite_def release_output_node_def
             split: option.splits prod.splits if_splits)
  obtain res st2 where
    c: "call_Rewrite (UserRewrite (Name rewriter)) rewriter opts st1 = (res, st2)"
    by (cases "call_Rewrite (UserRewrite (Name rewriter)) rewriter opts st1")
  then have s2: "runtime_info (analyzer_output st2) = runtime_info (analyzer_output st1)
      \<and> rewriter_calls st2 = rewriter_calls st1 @ [UserRewrite (Name rewriter)]"
    by (auto simp: call_Rewrite_def split: prod.splits)
  show ?case
  proof (cases res)
    case (Inl err)
    then show ?thesis using e c s1 s2 by simp
  next
    case (Inr node)
    then show ?thesis
      using e c s1 s2 Cons.IH [of "st2 \<lparr> last_rewrite_result := node \<rparr>"] by simp
  qed
qed

lemma NoConvert_tracked:
  "count (rewriters_details (runtime_info (analyzer_output
      (snd (InternalRewriteResolvedAstNoConvertErrorLocation env analyzer_options seqs output)))) r)
     = count (rewriters_details (runtime_info output) r)
       + int (count_list (rewriter_calls
           (snd (InternalRewriteResolvedAstNoConvertErrorLocation env analyzer_options seqs
              output))) (BuiltinRewrite r))
   \<and> timed_value (rewriters_details (runtime_info (analyzer_output
      (snd (InternalRewriteResolvedAstNoConvertErrorLocation env analyzer_options seqs output)))) r)
     = timed_value (rewriters_details (runtime_info output) r)
       + count_list (rewriter_calls
           (snd (InternalRewriteResolvedAstNoConvertErrorLocation env analyzer_options seqs
              output))) (BuiltinRewrite r)"
proof -
  have tracked: "driver_invariant output st \<Longrightarrow>
      count (rewriters_details (runtime_info (analyzer_output st)) r)
        = count (rewriters_details (runtime_info output) r)
          + int (count_list (rewriter_calls st) (BuiltinRewrite r))
      \<and> timed_value (rewriters_details (runtime_info (analyzer_output st)) r)
        = timed_value (rewriters_details (runtime_info output) r)
          + count_list (rewriter_calls st) (BuiltinRewrite r)" for st
    by (simp add: driver_invariant_def)
  show ?thesis
  proof (cases rule: NoConvert_cases [where env = env and out = "output" and analyzer_options = analyzer_options and seqs = seqs])
    case (detect_fail e)
    then show ?thesis
      using tracked [OF driver_invariant_initial] by simp
  next
    case (early C D)
    then show ?thesis
      using tracked [OF kept_accumulate [OF driver_invariant_kept driver_invariant_initial]]
      by simp
  next
    case (pass_fail C D e st1)
    then show ?thesis
      using tracked [OF passes_invariant [of "output" env analyzer_options
              "enabled_rewrites analyzer_options \<inter> D" "seqs(FallbackSequence := 0)"]]
      by simp
  next
    case (installed C D st1 s st2)
    then show ?thesis
      using tracked [OF passes_invariant [of "output" env analyzer_options
              "enabled_rewrites analyzer_options \<inter> D" "seqs(FallbackSequence := 0)"]]
            install_result_details [of env analyzer_options st1]
      by simp
  qed
qed

text \<open>
  Claim C10: however the inner driver ends, the count and the timer of every rule have
  moved, from their values in the output given, by exactly the number of calls of that
  rule's built-in rewriter that the driver made; a pass over user rewriters (the
  leading and the trailing ones) leaves the runtime info as it is and adds no call of
  a built-in rewriter.
\<close>

theorem rewriters_details_tracking:
  "count (rewriters_details (runtime_info (analyzer_output
      (snd (InternalRewriteResolvedAstNoConvertErrorLocation env analyzer_options seqs output)))) r)
     = count (rewriters_details (runtime_info output) r)
       + int (count_list (rewriter_calls
           (snd (InternalRewriteResolvedAstNoConvertErrorLocation env analyzer_options seqs
              output))) (BuiltinRewrite r))
   \<and> timed_value (rewriters_details (runtime_info (analyzer_output
      (snd (InternalRewriteResolvedAstNoConvertErrorLocation env analyzer_options seqs output)))) r)
     = timed_value (rewriters_details (runtime_info output) r)
       + count_list (rewriter_calls
           (snd (InternalRewriteResolvedAstNoConvertErrorLocation env analyzer_options seqs
              output))) (BuiltinRewrite r)
   \<and> runtime_info (analyzer_output (snd (run_user_rewriters analyzer_options rewriters st)))
     = runtime_info (analyzer_output st)
   \<and> count_list (rewriter_calls (snd (run_user_rewriters analyzer_options rewriters st)))
        (BuiltinRewrite r)
     = count_list (rewriter_calls st) (BuiltinRewrite r)"
  using NoConvert_tracked [of env analyzer_options seqs "output" r]
        run_user_rewriters_runtime_info [of analyzer_options rewriters st r]
  by simp

theorem rewriters_details_tracking_witness:
  "rewriter_calls (snd (InternalRewriteResolvedAstNoConvertErrorLocation example_env
      wrapping_options example_sequences example_output))
     = [UserRewrite ''WrappingRewriter'', BuiltinRewrite REWRITE_NULLIFERROR_FUNCTION,
        UserRewrite ''WrappingRewriter'']
   \<and> count (rewriters_details (runtime_info (analyzer_output
        (snd (InternalRewriteResolvedAstNoConvertErrorLocation example_env wrapping_options
                example_sequences example_output)))) REWRITE_NULLIFERROR_FUNCTION) = 1
   \<and> timed_value (rewriters_details (runtime_info (analyzer_output
        (snd (InternalRewriteResolvedAstNoConvertErrorLocation example_env wrapping_options
                example_sequences example_output)))) REWRITE_NULLIFERROR_FUNCTION) = 1
   \<and> count (rewriters_details (runtime_info (analyzer_output
        (snd (InternalRewriteResolvedAstNoConvertErrorLocation example_env wrapping_options
                example_sequences example_output)))) REWRITE_ANONYMIZATION) = 0
   \<and> runtime_info (analyzer_output (snd (run_user_rewriters wrapping_options
        [wrapping_rewriter] (initial_state example_sequences example_output))))
       = example_runtime_info"
proof -
  have base: "rewriters_details (runtime_info example_output) r = \<lparr> count = 0, timed_value = 0 \<rparr>"
    for r
    by (simp add: example_output_def example_runtime_info_def)
  have init: "runtime_info (analyzer_output (initial_state example_sequences example_output))
                = example_runtime_info"
    by (simp add: initial_state_def example_output_def)
  show ?thesis
    using rewriters_details_tracking
            [of example_env wrapping_options example_sequences example_output
                REWRITE_NULLIFERROR_FUNCTION "[wrapping_rewriter]"
                "initial_state example_sequences example_output"]
          rewriters_details_tracking
            [of example_env wrapping_options example_sequences example_output
                REWRITE_ANONYMIZATION "[wrapping_rewriter]"
                "initial_state example_sequences example_output"]
          wrapping_run_calls base init
    by simp
qed

section \<open>The iteration bound\<close>

lemma convergence_loop_exit:
  "convergence_loop env analyzer_options iterations rewrites_to_apply st = (OkStatus, st') \<Longrightarrow>
   \<exists>checker. FindRelevantRewriters env (last_rewrite_result st') = Inr checker
      \<and> (enabled_rewrites analyzer_options \<inter> checker) - {REWRITE_ANONYMIZATION} = {}"
proof (induction env analyzer_options iterations rewrites_to_apply st
       rule: convergence_loop.induct)
  case (1 env analyzer_options iterations rewrites_to_apply st)
  show ?case
  proof (cases "iterations + 1 > kMaxIterations")
    case True
    then show ?thesis
      using "1.prems" by (subst (asm) convergence_loop.simps) simp
  next
    case False
    obtain status st1 where
      s: "sweep env analyzer_options rewrites_to_apply (registration_order env) st = (status, st1)"
      by (cases "sweep env analyzer_options rewrites_to_apply (registration_order env) st")
    show ?thesis
    proof (cases status)
      case (Some e)
      then show ?thesis
        using False s "1.prems" by (subst (asm) convergence_loop.simps) simp
    next
      case None
      show ?thesis
      proof (cases "recompute_rewrites_to_apply env analyzer_options (last_rewrite_result st1)")
        case (Inl e)
        then show ?thesis
          using False s None "1.prems" by (subst (asm) convergence_loop.simps) simp
      next
        case (Inr R')
        show ?thesis
        proof (cases "R' = {}")
          case True
          then have "st' = st1"
            using False s None Inr "1.prems" by (subst (asm) convergence_loop.simps) simp
          then show ?thesis
            using Inr True
            by (auto simp: recompute_rewrites_to_apply_def split: sum.splits)
        next
          case nonempty: False
          have "convergence_loop env analyzer_options (iterations + 1) R' st1 = (OkStatus, st')"
            using False s None Inr nonempty "1.prems"
            by (subst (asm) convergence_loop.simps) simp
          then show ?thesis
            using "1.IH" False s None Inr nonempty by auto
        qed
      qed
    qed
  qed
qed

lemma convergence_loop_limit:
  "sweeps_without_converging env analyzer_options n rewrites_to_apply st \<Longrightarrow>
   iterations + int n = kMaxIterations \<Longrightarrow>
   fst (convergence_loop env analyzer_options iterations rewrites_to_apply st)
     = Some iteration_limit_error"
proof (induction n arbitrary: iterations rewrites_to_apply st)
  case 0
  then show ?case by (subst convergence_loop.simps) simp
next
  case (Suc n)
  from Suc.prems(1) obtain st1 R' where
    s: "sweep env analyzer_options rewrites_to_apply (registration_order env) st = (OkStatus, st1)"
    and r: "recompute_rewrites_to_apply env analyzer_options (last_rewrite_result st1) = Inr R'"
    and ne: "R' \<noteq> {}"
    and rest: "sweeps_without_converging env analyzer_options n R' st1"
    by (auto split: prod.splits option.splits sum.splits)
  have "fst (convergence_loop env analyzer_options (iterations + 1) R' st1)
          = Some iteration_limit_error"
    using Suc.IH [OF rest] Suc.prems(2) by simp
  moreover have "\<not> iterations + 1 > kMaxIterations"
    using Suc.prems(2) by simp
  ultimately show ?case
    using s r ne by (subst convergence_loop.simps) simp
qed

lemma iteration_limit_error_eq:
  "iteration_limit_error =
     Error kResourceExhausted
       ''Query exceeded configured maximum number of rewriter iterations (25) without converging.''"
  by code_simp

lemma NoConvert_iteration_limit:
  assumes d: "detect_rewrites env out = Inr (checker, detected)"
    and ne: "enabled_rewrites analyzer_options \<inter> detected \<noteq> {}"
    and lead: "run_user_rewriters analyzer_options (leading_rewriters analyzer_options)
         (initial_state (seqs(FallbackSequence := 0)) out) = (OkStatus, st1)"
    and nc: "sweeps_without_converging env analyzer_options 25
         (enabled_rewrites analyzer_options \<inter> detected) st1"
  shows "InternalRewriteResolvedAstNoConvertErrorLocation env analyzer_options seqs out
           = (Some iteration_limit_error,
              snd (convergence_loop env analyzer_options 0
                     (enabled_rewrites analyzer_options \<inter> detected) st1))"
proof -
  let ?R = "enabled_rewrites analyzer_options \<inter> detected"
  let ?st0 = "initial_state (seqs(FallbackSequence := 0)) out"
  obtain s st' where l: "convergence_loop env analyzer_options 0 ?R st1 = (s, st')"
    by (cases "convergence_loop env analyzer_options 0 ?R st1")
  have "fst (convergence_loop env analyzer_options 0 ?R st1) = Some iteration_limit_error"
    using convergence_loop_limit [OF nc, of 0] by (simp add: kMaxIterations_def)
  then have s: "s = Some iteration_limit_error" using l by simp
  have p: "rewrite_passes env analyzer_options ?R ?st0 = (Some iteration_limit_error, st')"
    using lead ne l s by (simp add: rewrite_passes_def)
  show ?thesis
    using NoConvert_pass_fail [OF d p] l by simp
qed

text \<open>
  Claim C1, as the code has it: when relevance detection and the leading rewriters
  succeed and each of 25 sweeps succeeds and leaves a non-empty set of rules to apply,
  the inner driver returns the resource-exhausted error whose message names the limit
  25. On this failure, on a failure of relevance detection and on every failure inside
  the three passes, \<open>Update\<close> has not been called: \<open>max_column_id\<close> is the old one and
  each root pointer of the output is the old one or null (the root was released into
  the driver's local slot); no rewritten tree is installed. A failure of the validator
  comes after \<open>Update\<close>: the driver returns the validator's error and the root of
  the output is the rewritten tree.
\<close>

theorem iteration_limit:
  "(detect_rewrites env output = Inr (checker, detected)
    \<and> enabled_rewrites analyzer_options \<inter> detected \<noteq> {}
    \<and> run_user_rewriters analyzer_options (leading_rewriters analyzer_options)
         (initial_state (seqs(FallbackSequence := 0)) output) = (OkStatus, st1)
    \<and> sweeps_without_converging env analyzer_options 25
         (enabled_rewrites analyzer_options \<inter> detected) st1
    \<longrightarrow>
      fst (InternalRewriteResolvedAstNoConvertErrorLocation env analyzer_options seqs output)
        = Some (Error kResourceExhausted
            ''Query exceeded configured maximum number of rewriter iterations (25) without converging.'')
      \<and> no_tree_installed output (analyzer_output
            (snd (InternalRewriteResolvedAstNoConvertErrorLocation env analyzer_options seqs
               output))))
   \<and> (detect_rewrites env output = Inl e \<longrightarrow>
        InternalRewriteResolvedAstNoConvertErrorLocation env analyzer_options seqs output
          = (Some e, initial_state (seqs(FallbackSequence := 0)) output)
        \<and> analyzer_output (initial_state (seqs(FallbackSequence := 0)) output) = output)
   \<and> (detect_rewrites env output = Inr (checker, detected)
       \<and> rewrite_passes env analyzer_options (enabled_rewrites analyzer_options \<inter> detected)
            (initial_state (seqs(FallbackSequence := 0)) output) = (Some e, st2)
       \<longrightarrow>
        InternalRewriteResolvedAstNoConvertErrorLocation env analyzer_options seqs output
          = (Some e, st2)
        \<and> no_tree_installed output (analyzer_output st2))
   \<and> (detect_rewrites env output = Inr (checker, detected)
       \<and> rewrite_passes env analyzer_options (enabled_rewrites analyzer_options \<inter> detected)
            (initial_state (seqs(FallbackSequence := 0)) output) = (OkStatus, st3)
       \<and> options_for_rewrite st3 \<noteq> None
       \<and> last_rewrite_result st3 = Some n
       \<and> validate_resolved_ast analyzer_options
       \<and> (if IsStatement env n
            then ValidateResolvedStatement env (language analyzer_options)
                   (allowed_hints_and_options analyzer_options) n
            else ValidateStandaloneResolvedExpr env (language analyzer_options)
                   (allowed_hints_and_options analyzer_options) n) = Some e
       \<longrightarrow>
        fst (InternalRewriteResolvedAstNoConvertErrorLocation env analyzer_options seqs output)
          = Some e
        \<and> NodeFromAnalyzerOutput (analyzer_output
              (snd (InternalRewriteResolvedAstNoConvertErrorLocation env analyzer_options seqs
                 output))) = Some n)"
proof (intro conjI impI)
  assume h: "detect_rewrites env output = Inr (checker, detected)
    \<and> enabled_rewrites analyzer_options \<inter> detected \<noteq> {}
    \<and> run_user_rewriters analyzer_options (leading_rewriters analyzer_options)
         (initial_state (seqs(FallbackSequence := 0)) output) = (OkStatus, st1)
    \<and> sweeps_without_converging env analyzer_options 25
         (enabled_rewrites analyzer_options \<inter> detected) st1"
  let ?R = "enabled_rewrites analyzer_options \<inter> detected"
  let ?st0 = "initial_state (seqs(FallbackSequence := 0)) output"
  obtain s st' where l: "convergence_loop env analyzer_options 0 ?R st1 = (s, st')"
    by (cases "convergence_loop env analyzer_options 0 ?R st1")
  have "fst (convergence_loop env analyzer_options 0 ?R st1) = Some iteration_limit_error"
    using convergence_loop_limit [of env analyzer_options 25 ?R st1 0] h
    by (simp add: kMaxIterations_def)
  then have s: "s = Some iteration_limit_error" using l by simp
  have p: "rewrite_passes env analyzer_options ?R ?st0 = (Some iteration_limit_error, st')"
    using h l s by (simp add: rewrite_passes_def)
  have r: "InternalRewriteResolvedAstNoConvertErrorLocation env analyzer_options seqs output
             = (Some iteration_limit_error, st')"
    using NoConvert_pass_fail [OF _ p] h by blast
  have inv: "driver_invariant output st'"
    using passes_invariant [of "output" env analyzer_options ?R "seqs(FallbackSequence := 0)"] p
    by simp
  show "fst (InternalRewriteResolvedAstNoConvertErrorLocation env analyzer_options seqs output)
        = Some (Error kResourceExhausted
            ''Query exceeded configured maximum number of rewriter iterations (25) without converging.'')"
    using r iteration_limit_error_eq by simp
  show "no_tree_installed output (analyzer_output
            (snd (InternalRewriteResolvedAstNoConvertErrorLocation env analyzer_options seqs
               output)))"
    using r invariant_no_tree_installed [OF inv] by simp
next
  assume "detect_rewrites env output = Inl e"
  then show "InternalRewriteResolvedAstNoConvertErrorLocation env analyzer_options seqs output
          = (Some e, initial_state (seqs(FallbackSequence := 0)) output)"
    by (simp add: InternalRewriteResolvedAstNoConvertErrorLocation_def)
next
  show "analyzer_output (initial_state (seqs(FallbackSequence := 0)) output) = output"
    by (simp add: initial_state_def)
next
  assume h: "detect_rewrites env output = Inr (checker, detected)
       \<and> rewrite_passes env analyzer_options (enabled_rewrites analyzer_options \<inter> detected)
            (initial_state (seqs(FallbackSequence := 0)) output) = (Some e, st2)"
  then show "InternalRewriteResolvedAstNoConvertErrorLocation env analyzer_options seqs output
          = (Some e, st2)"
    using NoConvert_pass_fail by blast
  show "no_tree_installed output (analyzer_output st2)"
    using passes_invariant [of "output" env analyzer_options
            "enabled_rewrites analyzer_options \<inter> detected" "seqs(FallbackSequence := 0)"] h
          invariant_no_tree_installed by fastforce
next
  assume h: "detect_rewrites env output = Inr (checker, detected)
       \<and> rewrite_passes env analyzer_options (enabled_rewrites analyzer_options \<inter> detected)
            (initial_state (seqs(FallbackSequence := 0)) output) = (OkStatus, st3)
       \<and> options_for_rewrite st3 \<noteq> None
       \<and> last_rewrite_result st3 = Some n
       \<and> validate_resolved_ast analyzer_options
       \<and> (if IsStatement env n
            then ValidateResolvedStatement env (language analyzer_options)
                   (allowed_hints_and_options analyzer_options) n
            else ValidateStandaloneResolvedExpr env (language analyzer_options)
                   (allowed_hints_and_options analyzer_options) n) = Some e"
  have r: "fst (InternalRewriteResolvedAstNoConvertErrorLocation env analyzer_options seqs output)
          = Some e
        \<and> NodeFromAnalyzerOutput (analyzer_output
              (snd (InternalRewriteResolvedAstNoConvertErrorLocation env analyzer_options seqs
                 output))) = Some n"
    using h NoConvert_validator_failure [of env "output" checker detected analyzer_options seqs
                                           st3 n e]
    by blast
  show "fst (InternalRewriteResolvedAstNoConvertErrorLocation env analyzer_options seqs output)
          = Some e"
    using r by simp
  show "NodeFromAnalyzerOutput (analyzer_output
              (snd (InternalRewriteResolvedAstNoConvertErrorLocation env analyzer_options seqs
                 output))) = Some n"
    using r by simp
qed

lemma looping_sweep:
  assumes "(options_for_rewrite st = None \<and> NodeFromAnalyzerOutput (analyzer_output st) \<noteq> None)
           \<or> (options_for_rewrite st \<noteq> None \<and> last_rewrite_result st \<noteq> None)"
  shows "\<exists>st'. sweep looping_env looping_options {REWRITE_OTHER 0}
                 (registration_order looping_env) st = (OkStatus, st')
           \<and> options_for_rewrite st' \<noteq> None \<and> last_rewrite_result st' \<noteq> None"
proof -
  obtain opts st1 where e: "ensure_options_for_rewrite looping_options st = (opts, st1)"
    by (cases "ensure_options_for_rewrite looping_options st")
  have o1: "options_for_rewrite st1 \<noteq> None"
    using ensure_options_Some [of looping_options st] e by simp
  have l1: "last_rewrite_result st1 \<noteq> None"
    using assms e
    by (auto simp: ensure_options_for_rewrite_def release_output_node_def
          NodeFromAnalyzerOutput_def split: option.splits prod.splits if_splits)
  then obtain n where n: "last_rewrite_result st1 = Some n" by auto
  obtain res st2 where
    c0: "call_Rewrite (BuiltinRewrite (REWRITE_OTHER 0)) identity_rewriter opts
           (increment_count (REWRITE_OTHER 0) st1) = (res, st2)"
    by (cases "call_Rewrite (BuiltinRewrite (REWRITE_OTHER 0)) identity_rewriter opts
           (increment_count (REWRITE_OTHER 0) st1)")
  have res: "res = Inr (Some n)"
    using c0 n
    by (auto simp: call_Rewrite_def identity_rewriter_def increment_count_def
          map_runtime_info_def)
  have o2: "options_for_rewrite st2 \<noteq> None"
    using c0 o1
    by (auto simp: call_Rewrite_def identity_rewriter_def increment_count_def
          map_runtime_info_def)
  have c: "call_Rewrite (BuiltinRewrite (REWRITE_OTHER 0)) identity_rewriter opts
             (increment_count (REWRITE_OTHER 0) st1) = (Inr (Some n), st2)"
    using c0 res by simp
  have order: "registration_order looping_env = [REWRITE_OTHER 0]"
    and get: "registry_Get looping_env (REWRITE_OTHER 0) = Some identity_rewriter"
    by (simp_all add: looping_env_def)
  show ?thesis
    using e c o2 order get
    by (simp add: stop_details_timer_def map_runtime_info_def)
qed

lemma looping_recompute:
  "recompute_rewrites_to_apply looping_env looping_options tree = Inr {REWRITE_OTHER 0}"
  by (auto simp: recompute_rewrites_to_apply_def looping_env_def looping_options_def)

lemma looping_never_converges:
  "(options_for_rewrite st = None \<and> NodeFromAnalyzerOutput (analyzer_output st) \<noteq> None)
     \<or> (options_for_rewrite st \<noteq> None \<and> last_rewrite_result st \<noteq> None) \<Longrightarrow>
   sweeps_without_converging looping_env looping_options n {REWRITE_OTHER 0} st"
proof (induction n arbitrary: st)
  case 0
  then show ?case by simp
next
  case (Suc n)
  obtain st' where
    s: "sweep looping_env looping_options {REWRITE_OTHER 0}
          (registration_order looping_env) st = (OkStatus, st')"
    and o: "options_for_rewrite st' \<noteq> None" and l: "last_rewrite_result st' \<noteq> None"
    using looping_sweep [OF Suc.prems] by blast
  have "sweeps_without_converging looping_env looping_options n {REWRITE_OTHER 0} st'"
    using Suc.IH [of st'] o l by simp
  then show ?case
    using s by (simp add: looping_recompute)
qed

lemma looping_initial:
  "options_for_rewrite (initial_state seqs example_output) = None
   \<and> NodeFromAnalyzerOutput (analyzer_output (initial_state seqs example_output)) \<noteq> None"
  by (simp add: initial_state_def example_output_def NodeFromAnalyzerOutput_def)

lemma looping_final_options:
  "options_for_rewrite
     (snd (convergence_loop looping_env looping_options 0 {REWRITE_OTHER 0}
             (initial_state seqs example_output))) \<noteq> None"
proof -
  obtain st' where
    s: "sweep looping_env looping_options {REWRITE_OTHER 0}
          (registration_order looping_env) (initial_state seqs example_output) = (OkStatus, st')"
    and o: "options_for_rewrite st' \<noteq> None"
    using looping_sweep [of "initial_state seqs example_output"] looping_initial [of seqs]
    by blast
  have "convergence_loop looping_env looping_options 0 {REWRITE_OTHER 0}
          (initial_state seqs example_output)
        = convergence_loop looping_env looping_options 1 {REWRITE_OTHER 0} st'"
    using s
    by (subst convergence_loop.simps) (simp add: looping_recompute kMaxIterations_def)
  then show ?thesis
    using convergence_loop_keeps [OF options_kept, where st = st'
            and analyzer_options = looping_options and env = looping_env and iterations = 1
            and rewrites_to_apply = "{REWRITE_OTHER 0}"] o
    by simp
qed

lemma counted_kept:
  "kept_by_steps analyzer_options
     (\<lambda>st. 0 < count (rewriters_details (runtime_info (analyzer_output st)) r))"
  unfolding kept_by_steps_def
  by (auto simp: ensure_options_for_rewrite_def call_Rewrite_def stop_details_timer_def
        increment_count_def map_runtime_info_def accumulate_rewriter_timer_def
        release_output_node_def
        split: option.splits prod.splits)

lemma looping_first_sweep:
  "fst (sweep looping_env looping_options {REWRITE_OTHER 0} (registration_order looping_env)
          (initial_state (example_sequences(FallbackSequence := 0)) example_output)) = OkStatus
   \<and> count (rewriters_details (runtime_info (analyzer_output
        (snd (sweep looping_env looping_options {REWRITE_OTHER 0}
                (registration_order looping_env)
                (initial_state (example_sequences(FallbackSequence := 0)) example_output)))))
        (REWRITE_OTHER 0)) = 1
   \<and> count (rewriters_details (runtime_info example_output) (REWRITE_OTHER 0)) = 0"
  by code_simp

lemma looping_final_count:
  "0 < count (rewriters_details (runtime_info (analyzer_output
         (snd (convergence_loop looping_env looping_options 0 {REWRITE_OTHER 0}
                 (initial_state (example_sequences(FallbackSequence := 0)) example_output)))))
         (REWRITE_OTHER 0))"
proof -
  let ?st0 = "initial_state (example_sequences(FallbackSequence := 0)) example_output"
  let ?sw = "sweep looping_env looping_options {REWRITE_OTHER 0}
               (registration_order looping_env) ?st0"
  have s: "?sw = (OkStatus, snd ?sw)"
    using looping_first_sweep by (metis prod.collapse)
  have c: "0 < count (rewriters_details (runtime_info (analyzer_output (snd ?sw)))
                  (REWRITE_OTHER 0))"
    using looping_first_sweep by simp
  obtain st' where st': "st' = snd ?sw" by simp
  have s': "?sw = (OkStatus, st')" using s st' by simp
  have "convergence_loop looping_env looping_options 0 {REWRITE_OTHER 0} ?st0
        = convergence_loop looping_env looping_options 1 {REWRITE_OTHER 0} st'"
    using s'
    by (subst convergence_loop.simps) (simp add: looping_recompute kMaxIterations_def)
  then show ?thesis
    using convergence_loop_keeps [OF counted_kept, where st = st'
            and analyzer_options = looping_options and env = looping_env and iterations = 1
            and rewrites_to_apply = "{REWRITE_OTHER 0}" and r1 = "REWRITE_OTHER 0"] c st'
    by simp
qed

theorem iteration_limit_witness:
  "detect_rewrites looping_env example_output = Inr ({REWRITE_OTHER 0}, {REWRITE_OTHER 0})
   \<and> enabled_rewrites looping_options \<inter> {REWRITE_OTHER 0} \<noteq> {}
   \<and> sweeps_without_converging looping_env looping_options 25
        (enabled_rewrites looping_options \<inter> {REWRITE_OTHER 0})
        (initial_state (example_sequences(FallbackSequence := 0)) example_output)
   \<and> fst (InternalRewriteResolvedAstNoConvertErrorLocation looping_env looping_options
            example_sequences example_output)
       = Some (Error kResourceExhausted
           ''Query exceeded configured maximum number of rewriter iterations (25) without converging.'')
   \<and> no_tree_installed example_output (analyzer_output
        (snd (InternalRewriteResolvedAstNoConvertErrorLocation looping_env looping_options
                example_sequences example_output)))
   \<and> InternalRewriteResolvedAstNoConvertErrorLocation example_env example_options
        example_sequences (example_output \<lparr> resolved_expr := None \<rparr>)
       = (Some (RetCheckFailure ''rewrite_input != nullptr''),
          initial_state (example_sequences(FallbackSequence := 0))
            (example_output \<lparr> resolved_expr := None \<rparr>))
   \<and> fst (InternalRewriteResolvedAstNoConvertErrorLocation example_env example_options
            example_sequences (example_output \<lparr> resolved_expr := Some hinted_nulliferror_call \<rparr>))
       = Some (Error kUnimplemented ''The NULLIFERROR() operator does not support hints.'')
   \<and> no_tree_installed (example_output \<lparr> resolved_expr := Some hinted_nulliferror_call \<rparr>)
        (analyzer_output
          (snd (InternalRewriteResolvedAstNoConvertErrorLocation example_env example_options
            example_sequences (example_output \<lparr> resolved_expr := Some hinted_nulliferror_call \<rparr>))))
   \<and> validate_resolved_ast example_options
   \<and> ValidateStandaloneResolvedExpr rejecting_validator_env (language example_options)
        (allowed_hints_and_options example_options) rewritten_example
       = Some (Error kInvalidArgument ''rejected by validator'')
   \<and> fst (InternalRewriteResolvedAstNoConvertErrorLocation rejecting_validator_env
            example_options example_sequences example_output)
       = Some (Error kInvalidArgument ''rejected by validator'')
   \<and> NodeFromAnalyzerOutput (analyzer_output
        (snd (InternalRewriteResolvedAstNoConvertErrorLocation rejecting_validator_env
                example_options example_sequences example_output))) = Some rewritten_example"
proof -
  let ?st0 = "initial_state (example_sequences(FallbackSequence := 0)) example_output"
  let ?hinted = "example_output \<lparr> resolved_expr := Some hinted_nulliferror_call \<rparr>"
  let ?absent = "example_output \<lparr> resolved_expr := None \<rparr>"
  let ?e = "Error kUnimplemented ''The NULLIFERROR() operator does not support hints.''"
  let ?p = "rewrite_passes example_env example_options
              (enabled_rewrites example_options \<inter> {REWRITE_NULLIFERROR_FUNCTION})
              (initial_state (example_sequences(FallbackSequence := 0)) ?hinted)"
  have en: "enabled_rewrites looping_options \<inter> {REWRITE_OTHER 0} \<noteq> {}"
    by (simp add: looping_options_def)
  have lead: "run_user_rewriters looping_options (leading_rewriters looping_options) ?st0
                = (OkStatus, ?st0)"
    by (simp add: looping_options_def example_options_def)
  have nc: "sweeps_without_converging looping_env looping_options 25
              (enabled_rewrites looping_options \<inter> {REWRITE_OTHER 0}) ?st0"
    using looping_never_converges [of ?st0 25] looping_initial
    by (simp add: looping_options_def)
  have a: "fst (InternalRewriteResolvedAstNoConvertErrorLocation looping_env looping_options
            example_sequences example_output)
       = Some (Error kResourceExhausted
           ''Query exceeded configured maximum number of rewriter iterations (25) without converging.'')
      \<and> no_tree_installed example_output (analyzer_output
        (snd (InternalRewriteResolvedAstNoConvertErrorLocation looping_env looping_options
                example_sequences example_output)))"
    using iteration_limit
            [of looping_env example_output "{REWRITE_OTHER 0}" "{REWRITE_OTHER 0}"
                looping_options example_sequences ?st0 ?e ?st0]
          looping_detect en lead nc
    by blast
  have b: "InternalRewriteResolvedAstNoConvertErrorLocation example_env example_options
        example_sequences ?absent
       = (Some (RetCheckFailure ''rewrite_input != nullptr''),
          initial_state (example_sequences(FallbackSequence := 0)) ?absent)"
    using iteration_limit
            [of example_env ?absent "{}" "{}" example_options example_sequences ?st0
                "RetCheckFailure ''rewrite_input != nullptr''" ?st0]
          absent_detect
    by blast
  have p: "?p = (Some ?e, snd ?p)"
    using hinted_passes by (metis prod.collapse)
  have c: "InternalRewriteResolvedAstNoConvertErrorLocation example_env example_options
             example_sequences ?hinted = (Some ?e, snd ?p)
           \<and> no_tree_installed ?hinted (analyzer_output (snd ?p))"
    using iteration_limit
            [of example_env ?hinted "{REWRITE_NULLIFERROR_FUNCTION}"
                "{REWRITE_NULLIFERROR_FUNCTION}" example_options example_sequences ?st0
                ?e "snd ?p"]
          hinted_detect p
    by blast
  let ?q = "rewrite_passes rejecting_validator_env example_options
              (enabled_rewrites example_options \<inter> {REWRITE_NULLIFERROR_FUNCTION}) ?st0"
  let ?v = "Error kInvalidArgument ''rejected by validator''"
  have q: "?q = (OkStatus, snd ?q)"
    using rejecting_passes by (metis prod.collapse)
  have qo: "options_for_rewrite (snd ?q) \<noteq> None"
    using passes_invariant [of example_output rejecting_validator_env example_options
            "enabled_rewrites example_options \<inter> {REWRITE_NULLIFERROR_FUNCTION}"
            "example_sequences(FallbackSequence := 0)"] rejecting_passes
    by (cases "options_for_rewrite (snd ?q)") (auto simp: driver_invariant_def)
  have ql: "last_rewrite_result (snd ?q) = Some rewritten_example"
    using rejecting_passes by simp
  have va: "validate_resolved_ast example_options"
    by (simp add: example_options_def)
  have rej: "ValidateStandaloneResolvedExpr rejecting_validator_env (language example_options)
        (allowed_hints_and_options example_options) rewritten_example = Some ?v"
    and ns: "\<not> IsStatement rejecting_validator_env rewritten_example"
    by (simp_all add: rejecting_validator_env_def example_env_def)
  have d: "fst (InternalRewriteResolvedAstNoConvertErrorLocation rejecting_validator_env
             example_options example_sequences example_output) = Some ?v
           \<and> NodeFromAnalyzerOutput (analyzer_output
                (snd (InternalRewriteResolvedAstNoConvertErrorLocation rejecting_validator_env
                        example_options example_sequences example_output)))
               = Some rewritten_example"
    using iteration_limit
            [of rejecting_validator_env example_output "{REWRITE_NULLIFERROR_FUNCTION}"
                "{REWRITE_NULLIFERROR_FUNCTION}" example_options example_sequences ?st0
                ?v ?st0 "snd ?q" rewritten_example]
          rejecting_detect q qo ql va rej ns
    by presburger
  show ?thesis
    using looping_detect en nc a b c va rej d by simp
qed

text \<open>
  The output is not left unchanged by the resource-exhausted failure: with a rewriter
  that hands its input back under a rule the scanner always finds, the driver fails at
  the limit, the expression of the output, present before, is null afterwards, and
  the count of the rule has moved. Nor is every failure free of an installed tree: when
  the validator rejects the rewritten example, the driver fails and the output holds
  the rewritten tree.
\<close>

theorem iteration_limit_counterexample:
  "fst (InternalRewriteResolvedAstNoConvertErrorLocation looping_env looping_options
          example_sequences example_output)
     = Some (Error kResourceExhausted
         ''Query exceeded configured maximum number of rewriter iterations (25) without converging.'')
   \<and> resolved_expr example_output = Some (nulliferror_call (ResolvedColumnRef TYPE_INT64 3))
   \<and> resolved_expr (analyzer_output
        (snd (InternalRewriteResolvedAstNoConvertErrorLocation looping_env looping_options
                example_sequences example_output))) = None
   \<and> count (rewriters_details (runtime_info example_output) (REWRITE_OTHER 0)) = 0
   \<and> 0 < count (rewriters_details (runtime_info (analyzer_output
        (snd (InternalRewriteResolvedAstNoConvertErrorLocation looping_env looping_options
                example_sequences example_output)))) (REWRITE_OTHER 0))
   \<and> fst (InternalRewriteResolvedAstNoConvertErrorLocation rejecting_validator_env
            example_options example_sequences example_output)
       = Some (Error kInvalidArgument ''rejected by validator'')
   \<and> resolved_expr (analyzer_output
        (snd (InternalRewriteResolvedAstNoConvertErrorLocation rejecting_validator_env
                example_options example_sequences example_output))) = Some rewritten_example
   \<and> rewritten_example \<noteq> nulliferror_call (ResolvedColumnRef TYPE_INT64 3)"
proof -
  let ?st0 = "initial_state (example_sequences(FallbackSequence := 0)) example_output"
  let ?final = "snd (convergence_loop looping_env looping_options 0 {REWRITE_OTHER 0} ?st0)"
  have en: "enabled_rewrites looping_options \<inter> {REWRITE_OTHER 0} = {REWRITE_OTHER 0}"
    by (simp add: looping_options_def)
  have lead: "run_user_rewriters looping_options (leading_rewriters looping_options) ?st0
                = (OkStatus, ?st0)"
    by (simp add: looping_options_def example_options_def)
  have nc: "sweeps_without_converging looping_env looping_options 25
              (enabled_rewrites looping_options \<inter> {REWRITE_OTHER 0}) ?st0"
    using looping_never_converges [of ?st0 25] looping_initial en by simp
  have run: "InternalRewriteResolvedAstNoConvertErrorLocation looping_env looping_options
               example_sequences example_output = (Some iteration_limit_error, ?final)"
    using NoConvert_iteration_limit [OF looping_detect _ lead nc] en by simp
  have inv: "driver_invariant example_output ?final"
    by (rule convergence_loop_keeps [OF driver_invariant_kept driver_invariant_initial])
  have "resolved_expr (analyzer_output ?final) = None"
    using inv looping_final_options [of "example_sequences(FallbackSequence := 0)"]
    by (cases "options_for_rewrite ?final")
       (auto simp: driver_invariant_def example_output_def)
  moreover have "rewritten_example \<noteq> nulliferror_call (ResolvedColumnRef TYPE_INT64 3)"
    by (simp add: rewritten_example_def nulliferror_call_def)
  ultimately show ?thesis
    using run iteration_limit_error_eq looping_final_count looping_first_sweep rejecting_run
    by (simp add: example_output_def)
qed

section \<open>The fixed point\<close>

lemma run_user_rewriters_Nil_passes:
  "trailing_rewriters analyzer_options = [] \<Longrightarrow> rewrites_to_apply \<noteq> {} \<Longrightarrow>
   rewrite_passes env analyzer_options rewrites_to_apply st = (OkStatus, st') \<Longrightarrow>
   \<exists>st1 st2. run_user_rewriters analyzer_options (leading_rewriters analyzer_options) st
                = (OkStatus, st1)
     \<and> convergence_loop env analyzer_options 0 rewrites_to_apply st1 = (OkStatus, st2)
     \<and> st' = accumulate_rewriter_timer st2"
  by (auto simp: rewrite_passes_def split: prod.splits option.splits)

lemma convergence_loop_unfold:
  assumes "iterations + 1 \<le> kMaxIterations"
    and "sweep env analyzer_options rewrites_to_apply (registration_order env) st
           = (OkStatus, st1)"
    and "FindRelevantRewriters env (last_rewrite_result st1) = Inr checker"
  shows "convergence_loop env analyzer_options iterations rewrites_to_apply st
     = (if (enabled_rewrites analyzer_options \<inter> checker) - {REWRITE_ANONYMIZATION} \<noteq> {}
        then convergence_loop env analyzer_options (iterations + 1)
               ((enabled_rewrites analyzer_options \<inter> checker) - {REWRITE_ANONYMIZATION}) st1
        else (OkStatus, st1))"
  using assms
  by (subst convergence_loop.simps) (simp add: recompute_rewrites_to_apply_def)

lemma NoConvert_fixed_point:
  assumes d: "detect_rewrites env out = Inr (checker0, detected)"
    and ne: "enabled_rewrites analyzer_options \<inter> detected \<noteq> {}"
    and tr: "trailing_rewriters analyzer_options = []"
    and ok: "InternalRewriteResolvedAstNoConvertErrorLocation env analyzer_options seqs out
               = (OkStatus, final)"
    and calls: "rewriter_calls final \<noteq> []"
  shows "\<exists>root checker. NodeFromAnalyzerOutput (analyzer_output final) = Some root
           \<and> FindRelevantRewriters env (Some root) = Inr checker
           \<and> (enabled_rewrites analyzer_options \<inter> checker) - {REWRITE_ANONYMIZATION} = {}"
proof (cases rule: NoConvert_cases [where env = env and out = out
         and analyzer_options = analyzer_options and seqs = seqs])
  case (detect_fail e)
  then show ?thesis using ok by simp
next
  case (early C D)
  then show ?thesis using d ne by simp
next
  case (pass_fail C D e st1)
  then show ?thesis using ok by simp
next
  case (installed C D st1 s st2)
  let ?R = "enabled_rewrites analyzer_options \<inter> detected"
  let ?st0 = "initial_state (seqs(FallbackSequence := 0)) out"
  have p: "rewrite_passes env analyzer_options ?R ?st0 = (OkStatus, st1)"
    using installed d by simp
  have s: "s = OkStatus" and fin: "final = st2"
    using installed ok by (auto split: if_splits)
  obtain sa sb where
    loop: "convergence_loop env analyzer_options 0 ?R sa = (OkStatus, sb)"
    and st1: "st1 = accumulate_rewriter_timer sb"
    using run_user_rewriters_Nil_passes [OF tr ne p] by blast
  obtain checker where
    f: "FindRelevantRewriters env (last_rewrite_result st1) = Inr checker"
    and e: "(enabled_rewrites analyzer_options \<inter> checker) - {REWRITE_ANONYMIZATION} = {}"
    using convergence_loop_exit [OF loop] st1 by auto
  have inv: "driver_invariant out st1"
    using passes_invariant [of out env analyzer_options ?R "seqs(FallbackSequence := 0)"] p
    by simp
  have c1: "rewriter_calls st1 \<noteq> []"
    using install_result_details [of env analyzer_options st1] installed(3) calls fin by simp
  then have o: "options_for_rewrite st1 \<noteq> None"
    using inv by (cases "options_for_rewrite st1") (auto simp: driver_invariant_def)
  then have stmt: "resolved_statement (analyzer_output st1) = None"
    using inv by (cases "options_for_rewrite st1") (auto simp: driver_invariant_def)
  have i: "install_result env analyzer_options st1 = (OkStatus, st2)"
    using installed(3) s by simp
  obtain n where n: "last_rewrite_result st1 = Some n"
    and rs: "resolved_statement (analyzer_output st2) = (if IsStatement env n then Some n else None)"
    and re: "resolved_expr (analyzer_output st2)
               = (if IsStatement env n then resolved_expr (analyzer_output st1) else Some n)"
    using install_result_Some [OF o stmt i] by blast
  have root: "NodeFromAnalyzerOutput (analyzer_output st2) = Some n"
    using rs re by (simp add: NodeFromAnalyzerOutput_def)
  show ?thesis using n root f e fin by auto
qed

text \<open>
  Claim C2, as the code has it: after a successful sweep, with the scanner's set for the
  current tree at hand, the loop goes on with the enabled rules of that set minus the
  anonymization rule exactly when this set is not empty, and ends with success
  otherwise; so a loop that ends with success ends on a tree for which that set is
  empty. When the loop ran, no trailing rewriter is configured, some rewriter was
  called and the inner driver returns success, that tree is the root of the output.
\<close>

theorem convergence_loop_fixed_point:
  "(iterations + 1 \<le> kMaxIterations
    \<and> sweep env analyzer_options rewrites_to_apply (registration_order env) st = (OkStatus, st1)
    \<and> FindRelevantRewriters env (last_rewrite_result st1) = Inr checker
    \<longrightarrow>
      convergence_loop env analyzer_options iterations rewrites_to_apply st
        = (if (enabled_rewrites analyzer_options \<inter> checker) - {REWRITE_ANONYMIZATION} \<noteq> {}
           then convergence_loop env analyzer_options (iterations + 1)
                  ((enabled_rewrites analyzer_options \<inter> checker) - {REWRITE_ANONYMIZATION}) st1
           else (OkStatus, st1)))
   \<and> (convergence_loop env analyzer_options iterations rewrites_to_apply st = (OkStatus, st')
       \<longrightarrow>
        (\<exists>checker'. FindRelevantRewriters env (last_rewrite_result st') = Inr checker'
           \<and> (enabled_rewrites analyzer_options \<inter> checker') - {REWRITE_ANONYMIZATION} = {}))
   \<and> (detect_rewrites env output = Inr (checker0, detected)
       \<and> enabled_rewrites analyzer_options \<inter> detected \<noteq> {}
       \<and> trailing_rewriters analyzer_options = []
       \<and> InternalRewriteResolvedAstNoConvertErrorLocation env analyzer_options seqs output
            = (OkStatus, final)
       \<and> rewriter_calls final \<noteq> []
       \<longrightarrow>
        (\<exists>root checker'. NodeFromAnalyzerOutput (analyzer_output final) = Some root
           \<and> FindRelevantRewriters env (Some root) = Inr checker'
           \<and> (enabled_rewrites analyzer_options \<inter> checker') - {REWRITE_ANONYMIZATION} = {}))"
  using convergence_loop_unfold [of iterations env analyzer_options rewrites_to_apply st st1 checker]
        convergence_loop_exit [of env analyzer_options iterations rewrites_to_apply st st']
        NoConvert_fixed_point [of env "output" checker0 detected analyzer_options seqs final]
  by blast

theorem convergence_loop_fixed_point_witness:
  "sweep example_env example_options {REWRITE_NULLIFERROR_FUNCTION}
     (registration_order example_env)
     (initial_state (example_sequences(FallbackSequence := 0)) example_output)
     = (OkStatus,
        snd (sweep example_env example_options {REWRITE_NULLIFERROR_FUNCTION}
               (registration_order example_env)
               (initial_state (example_sequences(FallbackSequence := 0)) example_output)))
   \<and> FindRelevantRewriters example_env (last_rewrite_result
        (snd (sweep example_env example_options {REWRITE_NULLIFERROR_FUNCTION}
               (registration_order example_env)
               (initial_state (example_sequences(FallbackSequence := 0)) example_output))))
       = Inr {}
   \<and> convergence_loop example_env example_options 0 {REWRITE_NULLIFERROR_FUNCTION}
        (initial_state (example_sequences(FallbackSequence := 0)) example_output)
       = (OkStatus,
          snd (sweep example_env example_options {REWRITE_NULLIFERROR_FUNCTION}
                 (registration_order example_env)
                 (initial_state (example_sequences(FallbackSequence := 0)) example_output)))
   \<and> detect_rewrites example_env example_output
       = Inr ({REWRITE_NULLIFERROR_FUNCTION}, {REWRITE_NULLIFERROR_FUNCTION})
   \<and> enabled_rewrites example_options \<inter> {REWRITE_NULLIFERROR_FUNCTION} \<noteq> {}
   \<and> trailing_rewriters example_options = []
   \<and> rewriter_calls (snd (InternalRewriteResolvedAstNoConvertErrorLocation example_env
        example_options example_sequences example_output)) \<noteq> []
   \<and> (\<exists>root checker'.
         NodeFromAnalyzerOutput (analyzer_output
           (snd (InternalRewriteResolvedAstNoConvertErrorLocation example_env example_options
                   example_sequences example_output))) = Some root
         \<and> FindRelevantRewriters example_env (Some root) = Inr checker'
         \<and> (enabled_rewrites example_options \<inter> checker') - {REWRITE_ANONYMIZATION} = {})"
proof -
  let ?st0 = "initial_state (example_sequences(FallbackSequence := 0)) example_output"
  let ?R = "{REWRITE_NULLIFERROR_FUNCTION}"
  let ?sw = "sweep example_env example_options ?R (registration_order example_env) ?st0"
  let ?run = "InternalRewriteResolvedAstNoConvertErrorLocation example_env example_options
                example_sequences example_output"
  note t = convergence_loop_fixed_point
             [of 0 example_env example_options ?R ?st0 "snd ?sw" "{}" "snd ?sw"
                 example_output ?R ?R example_sequences "snd ?run"]
  have k: "(0::int) + 1 \<le> kMaxIterations" by (simp add: kMaxIterations_def)
  have s: "?sw = (OkStatus, snd ?sw)"
    using ex_sweep by (metis prod.collapse)
  have f: "FindRelevantRewriters example_env (last_rewrite_result (snd ?sw)) = Inr {}"
    using ex_sweep by simp
  have e: "(enabled_rewrites example_options \<inter> {}) - {REWRITE_ANONYMIZATION} = {}"
    by simp
  have loop: "convergence_loop example_env example_options 0 ?R ?st0 = (OkStatus, snd ?sw)"
    using t k s f e by presburger
  have en: "enabled_rewrites example_options \<inter> ?R \<noteq> {}"
    and tr: "trailing_rewriters example_options = []"
    by (simp_all add: example_options_def)
  have r: "?run = (OkStatus, snd ?run)"
    using ex_run_status by (metis prod.collapse)
  have c: "rewriter_calls (snd ?run) \<noteq> []"
    using ex_run_calls by simp
  have fin: "\<exists>root checker'.
         NodeFromAnalyzerOutput (analyzer_output (snd ?run)) = Some root
         \<and> FindRelevantRewriters example_env (Some root) = Inr checker'
         \<and> (enabled_rewrites example_options \<inter> checker') - {REWRITE_ANONYMIZATION} = {}"
    using t ex_detect en tr r c by blast
  show ?thesis
    using s f loop ex_detect en tr c fin by blast
qed

text \<open>
  With a trailing rewriter the final root need not be a fixed point: the wrapping
  rewriter runs after the loop and puts a NULLIFERROR call around the converged tree.
\<close>

theorem trailing_rewriter_counterexample:
  "fst (InternalRewriteResolvedAstNoConvertErrorLocation example_env trailing_options
          example_sequences example_output) = OkStatus
   \<and> FindRelevantRewriters example_env
        (NodeFromAnalyzerOutput (analyzer_output
           (snd (InternalRewriteResolvedAstNoConvertErrorLocation example_env trailing_options
                   example_sequences example_output))))
       = Inr {REWRITE_NULLIFERROR_FUNCTION}
   \<and> (enabled_rewrites trailing_options \<inter> {REWRITE_NULLIFERROR_FUNCTION})
        - {REWRITE_ANONYMIZATION} \<noteq> {}"
  by code_simp

section \<open>The roots on success\<close>

lemma NoConvert_exactly_one:
  assumes x: "(resolved_statement out = None) \<noteq> (resolved_expr out = None)"
    and ok: "InternalRewriteResolvedAstNoConvertErrorLocation env analyzer_options seqs out
               = (OkStatus, final)"
  shows "(resolved_statement (analyzer_output final) = None)
           \<noteq> (resolved_expr (analyzer_output final) = None)"
proof (cases rule: NoConvert_cases [where env = env and out = out
         and analyzer_options = analyzer_options and seqs = seqs])
  case (detect_fail e)
  then show ?thesis using ok by simp
next
  case (early C D)
  then show ?thesis using ok x by (auto simp: initial_state_def)
next
  case (pass_fail C D e st1)
  then show ?thesis using ok by simp
next
  case (installed C D st1 s st2)
  have s: "s = OkStatus" and fin: "final = st2"
    using installed ok by (auto split: if_splits)
  have inv: "driver_invariant out st1"
    using passes_invariant [of out env analyzer_options
            "enabled_rewrites analyzer_options \<inter> D" "seqs(FallbackSequence := 0)"] installed(2)
    by simp
  show ?thesis
  proof (cases "options_for_rewrite st1")
    case None
    then have "st2 = st1" using installed(3) by (simp add: install_result_None)
    then show ?thesis using inv None x fin by (auto simp: driver_invariant_def)
  next
    case (Some opts)
    then have stmt: "resolved_statement (analyzer_output st1) = None"
      and expr: "resolved_expr (analyzer_output st1) = None"
      using inv x by (auto simp: driver_invariant_def)
    have o: "options_for_rewrite st1 \<noteq> None" using Some by simp
    have i: "install_result env analyzer_options st1 = (OkStatus, st2)"
      using installed(3) s by simp
    obtain n where
      rs: "resolved_statement (analyzer_output st2) = (if IsStatement env n then Some n else None)"
      and re: "resolved_expr (analyzer_output st2)
               = (if IsStatement env n then resolved_expr (analyzer_output st1) else Some n)"
      using install_result_Some [OF o stmt i] by blast
    show ?thesis
      using rs re expr fin by simp
  qed
qed

lemma NoConvert_some_root:
  assumes ok: "InternalRewriteResolvedAstNoConvertErrorLocation env analyzer_options seqs out
               = (OkStatus, final)"
  shows "resolved_statement (analyzer_output final) \<noteq> None
         \<or> resolved_expr (analyzer_output final) \<noteq> None"
proof (cases rule: NoConvert_cases [where env = env and out = out
         and analyzer_options = analyzer_options and seqs = seqs])
  case (detect_fail e)
  then show ?thesis using ok by simp
next
  case (early C D)
  then show ?thesis using ok detect_rewrites_root [OF early(1)] by (auto simp: initial_state_def)
next
  case (pass_fail C D e st1)
  then show ?thesis using ok by simp
next
  case (installed C D st1 s st2)
  then show ?thesis using ok by (auto split: if_splits)
qed

lemma top_level_success:
  assumes top: "InternalRewriteResolvedAst env analyzer_options sql seqs out = (OkStatus, final)"
    and conv: "\<And>err. ConvertInternalErrorLocationAndAdjustErrorString env
                   (error_message_mode analyzer_options)
                   (attach_error_location_payload analyzer_options) sql (Some err) \<noteq> OkStatus"
  shows "final = initial_state seqs out
         \<or> InternalRewriteResolvedAstNoConvertErrorLocation env analyzer_options seqs out
             = (OkStatus, final)"
proof -
  let ?cb = "case pre_rewrite_callback analyzer_options of
               None \<Rightarrow> OkStatus | Some callback \<Rightarrow> callback out"
  show ?thesis
  proof (cases ?cb)
    case (Some e)
    then show ?thesis using top by (simp add: InternalRewriteResolvedAst_def)
  next
    case None
    show ?thesis
    proof (cases "enabled_rewrites analyzer_options = {}
                  \<or> (resolved_statement out = None \<and> resolved_expr out = None)")
      case True
      then show ?thesis using top None by (simp add: InternalRewriteResolvedAst_def)
    next
      case False
      obtain s st where
        inner: "InternalRewriteResolvedAstNoConvertErrorLocation env analyzer_options seqs out
                  = (s, st)"
        by (cases "InternalRewriteResolvedAstNoConvertErrorLocation env analyzer_options seqs out")
      have r: "ConvertInternalErrorLocationAndAdjustErrorString env
                   (error_message_mode analyzer_options)
                   (attach_error_location_payload analyzer_options) sql s = OkStatus
               \<and> st = final"
        using top None False inner by (simp add: InternalRewriteResolvedAst_def)
      then have "s = OkStatus" using conv by (cases s) auto
      then show ?thesis using r inner by simp
    qed
  qed
qed

text \<open>
  Claim C7, as the code has it: when the output holds exactly one of statement and
  expression at entry and the driver returns success, it holds exactly one of them on
  return (for the entry point, given that the conversion layer turns no error into
  OK); a success of the inner driver always leaves at least one of them; and on an
  output with neither, the entry point without a failing callback returns success
  and leaves both null.
\<close>

theorem exactly_one_root:
  "((resolved_statement output = None) \<noteq> (resolved_expr output = None)
    \<and> InternalRewriteResolvedAstNoConvertErrorLocation env analyzer_options seqs output
         = (OkStatus, final)
    \<longrightarrow> (resolved_statement (analyzer_output final) = None)
           \<noteq> (resolved_expr (analyzer_output final) = None))
   \<and> ((resolved_statement output = None) \<noteq> (resolved_expr output = None)
       \<and> (\<forall>err. ConvertInternalErrorLocationAndAdjustErrorString env
                   (error_message_mode analyzer_options)
                   (attach_error_location_payload analyzer_options) sql (Some err) \<noteq> OkStatus)
       \<and> InternalRewriteResolvedAst env analyzer_options sql seqs output = (OkStatus, final')
       \<longrightarrow> (resolved_statement (analyzer_output final') = None)
              \<noteq> (resolved_expr (analyzer_output final') = None))
   \<and> (InternalRewriteResolvedAstNoConvertErrorLocation env analyzer_options seqs output
         = (OkStatus, final)
       \<longrightarrow> resolved_statement (analyzer_output final) \<noteq> None
            \<or> resolved_expr (analyzer_output final) \<noteq> None)
   \<and> (resolved_statement output = None \<and> resolved_expr output = None
       \<and> pre_rewrite_callback analyzer_options = None
       \<longrightarrow> InternalRewriteResolvedAst env analyzer_options sql seqs output
              = (OkStatus, initial_state seqs output)
            \<and> resolved_statement (analyzer_output (initial_state seqs output)) = None
            \<and> resolved_expr (analyzer_output (initial_state seqs output)) = None)"
proof (intro conjI impI)
  assume h: "(resolved_statement output = None) \<noteq> (resolved_expr output = None)
    \<and> InternalRewriteResolvedAstNoConvertErrorLocation env analyzer_options seqs output
         = (OkStatus, final)"
  from h have x: "(resolved_statement output = None) \<noteq> (resolved_expr output = None)" ..
  from h have ok: "InternalRewriteResolvedAstNoConvertErrorLocation env analyzer_options seqs
                     output = (OkStatus, final)" ..
  show "(resolved_statement (analyzer_output final) = None)
           \<noteq> (resolved_expr (analyzer_output final) = None)"
    by (rule NoConvert_exactly_one [OF x ok])
next
  assume h: "(resolved_statement output = None) \<noteq> (resolved_expr output = None)
       \<and> (\<forall>err. ConvertInternalErrorLocationAndAdjustErrorString env
                   (error_message_mode analyzer_options)
                   (attach_error_location_payload analyzer_options) sql (Some err) \<noteq> OkStatus)
       \<and> InternalRewriteResolvedAst env analyzer_options sql seqs output = (OkStatus, final')"
  from h have x: "(resolved_statement output = None) \<noteq> (resolved_expr output = None)" ..
  from h have conv: "ConvertInternalErrorLocationAndAdjustErrorString env
                   (error_message_mode analyzer_options)
                   (attach_error_location_payload analyzer_options) sql (Some err) \<noteq> OkStatus"
    for err by simp
  from h have top: "InternalRewriteResolvedAst env analyzer_options sql seqs output
                      = (OkStatus, final')" by simp
  from top_level_success [OF top conv]
  show "(resolved_statement (analyzer_output final') = None)
              \<noteq> (resolved_expr (analyzer_output final') = None)"
  proof
    assume "final' = initial_state seqs output"
    then show ?thesis using x by (simp add: initial_state_def)
  next
    assume "InternalRewriteResolvedAstNoConvertErrorLocation env analyzer_options seqs output
              = (OkStatus, final')"
    then show ?thesis by (rule NoConvert_exactly_one [OF x])
  qed
next
  assume "InternalRewriteResolvedAstNoConvertErrorLocation env analyzer_options seqs output
         = (OkStatus, final)"
  then show "resolved_statement (analyzer_output final) \<noteq> None
            \<or> resolved_expr (analyzer_output final) \<noteq> None"
    by (rule NoConvert_some_root)
next
  assume h: "resolved_statement output = None \<and> resolved_expr output = None
       \<and> pre_rewrite_callback analyzer_options = None"
  then show "InternalRewriteResolvedAst env analyzer_options sql seqs output
              = (OkStatus, initial_state seqs output)"
    by (simp add: InternalRewriteResolvedAst_def)
  show "resolved_statement (analyzer_output (initial_state seqs output)) = None"
    using h by (simp add: initial_state_def)
  show "resolved_expr (analyzer_output (initial_state seqs output)) = None"
    using h by (simp add: initial_state_def)
qed

theorem exactly_one_root_witness:
  "(resolved_statement example_output = None) \<noteq> (resolved_expr example_output = None)
   \<and> InternalRewriteResolvedAstNoConvertErrorLocation example_env example_options
        example_sequences example_output
       = (OkStatus, snd (InternalRewriteResolvedAstNoConvertErrorLocation example_env
                           example_options example_sequences example_output))
   \<and> (resolved_statement (analyzer_output (snd (InternalRewriteResolvedAstNoConvertErrorLocation
          example_env example_options example_sequences example_output))) = None)
       \<noteq> (resolved_expr (analyzer_output (snd (InternalRewriteResolvedAstNoConvertErrorLocation
          example_env example_options example_sequences example_output))) = None)
   \<and> (\<forall>err. ConvertInternalErrorLocationAndAdjustErrorString example_env
                (error_message_mode example_options)
                (attach_error_location_payload example_options) ''SELECT NULLIFERROR(x)''
                (Some err) \<noteq> OkStatus)
   \<and> InternalRewriteResolvedAst example_env example_options ''SELECT NULLIFERROR(x)''
        example_sequences example_output
       = (OkStatus, snd (InternalRewriteResolvedAst example_env example_options
                           ''SELECT NULLIFERROR(x)'' example_sequences example_output))
   \<and> (resolved_statement (analyzer_output (snd (InternalRewriteResolvedAst example_env
          example_options ''SELECT NULLIFERROR(x)'' example_sequences example_output))) = None)
       \<noteq> (resolved_expr (analyzer_output (snd (InternalRewriteResolvedAst example_env
          example_options ''SELECT NULLIFERROR(x)'' example_sequences example_output))) = None)
   \<and> pre_rewrite_callback example_options = None
   \<and> InternalRewriteResolvedAst example_env example_options ''SELECT NULLIFERROR(x)''
        example_sequences (example_output \<lparr> resolved_expr := None \<rparr>)
       = (OkStatus, initial_state example_sequences (example_output \<lparr> resolved_expr := None \<rparr>))"
proof -
  let ?run = "InternalRewriteResolvedAstNoConvertErrorLocation example_env example_options
                example_sequences example_output"
  let ?top = "InternalRewriteResolvedAst example_env example_options ''SELECT NULLIFERROR(x)''
                example_sequences example_output"
  let ?absent = "example_output \<lparr> resolved_expr := None \<rparr>"
  have x: "(resolved_statement example_output = None) \<noteq> (resolved_expr example_output = None)"
    by (simp add: example_output_def)
  have r: "?run = (OkStatus, snd ?run)"
    using ex_run_status by (metis prod.collapse)
  have tp: "?top = (OkStatus, snd ?top)"
    using ex_top_status by (metis prod.collapse)
  have conv: "\<forall>err. ConvertInternalErrorLocationAndAdjustErrorString example_env
                (error_message_mode example_options)
                (attach_error_location_payload example_options) ''SELECT NULLIFERROR(x)''
                (Some err) \<noteq> OkStatus"
    by (simp add: example_env_def example_convert_def)
  have none: "resolved_statement ?absent = None \<and> resolved_expr ?absent = None
      \<and> pre_rewrite_callback example_options = None"
    by (simp add: example_output_def example_options_def)
  note t1 = exactly_one_root
              [of example_output example_env example_options example_sequences "snd ?run"
                  "''SELECT NULLIFERROR(x)''" "snd ?top"]
  note t2 = exactly_one_root
              [of ?absent example_env example_options example_sequences "snd ?run"
                  "''SELECT NULLIFERROR(x)''" "snd ?top"]
  have a: "(resolved_statement (analyzer_output (snd ?run)) = None)
             \<noteq> (resolved_expr (analyzer_output (snd ?run)) = None)"
  proof -
    have h: "(resolved_statement example_output = None) \<noteq> (resolved_expr example_output = None)
       \<and> ?run = (OkStatus, snd ?run)"
      using x r by (intro conjI) assumption+
    show ?thesis
      by (rule t1 [THEN conjunct1, THEN mp, OF h])
  qed
  have b: "(resolved_statement (analyzer_output (snd ?top)) = None)
             \<noteq> (resolved_expr (analyzer_output (snd ?top)) = None)"
  proof -
    have h: "(resolved_statement example_output = None) \<noteq> (resolved_expr example_output = None)
       \<and> (\<forall>err. ConvertInternalErrorLocationAndAdjustErrorString example_env
                   (error_message_mode example_options)
                   (attach_error_location_payload example_options) ''SELECT NULLIFERROR(x)''
                   (Some err) \<noteq> OkStatus)
       \<and> ?top = (OkStatus, snd ?top)"
      using x conv tp by (intro conjI) assumption+
    show ?thesis
      by (rule t1 [THEN conjunct2, THEN conjunct1, THEN mp, OF h])
  qed
  have c: "InternalRewriteResolvedAst example_env example_options ''SELECT NULLIFERROR(x)''
             example_sequences ?absent = (OkStatus, initial_state example_sequences ?absent)"
    by (rule t2 [THEN conjunct2, THEN conjunct2, THEN conjunct2, THEN mp, OF none,
                 THEN conjunct1])
  have cb: "pre_rewrite_callback example_options = None"
    using none by (elim conjE)
  show ?thesis
    using x r a conv tp b cb c by (intro conjI) assumption+
qed

text \<open>
  The entry point returns success on an output that has neither a statement nor an
  expression, and leaves it so.
\<close>

theorem absent_root_counterexample:
  "fst (InternalRewriteResolvedAst example_env example_options ''SELECT NULLIFERROR(x)''
          example_sequences (example_output \<lparr> resolved_expr := None \<rparr>)) = OkStatus
   \<and> resolved_statement (analyzer_output (snd (InternalRewriteResolvedAst example_env
        example_options ''SELECT NULLIFERROR(x)'' example_sequences
        (example_output \<lparr> resolved_expr := None \<rparr>)))) = None
   \<and> resolved_expr (analyzer_output (snd (InternalRewriteResolvedAst example_env
        example_options ''SELECT NULLIFERROR(x)'' example_sequences
        (example_output \<lparr> resolved_expr := None \<rparr>)))) = None"
  by (simp add: InternalRewriteResolvedAst_def example_options_def example_output_def
        initial_state_def)


end
